theory Spec2Isabelle
  imports Main
begin

section \<open>JavaScript strings\<close>

text \<open>
  A JavaScript string is a sequence of UTF-16 code units. The model keeps the code units
  as integers; \<open>str\<close> embeds an ASCII literal. The accented letters of the sources are
  the precomposed Latin-1 code points (\<open>243\<close> is o with acute, \<open>225\<close> a with acute,
  \<open>237\<close> i with acute, \<open>250\<close> u with acute, \<open>241\<close> n with tilde).
\<close>

type_synonym jsstring = "int list"

definition str :: "string \<Rightarrow> jsstring" where
  "str cs = map of_char cs"

text \<open>
  \<open>String.prototype.toLowerCase\<close> and \<open>toUpperCase\<close>, on Basic Latin and the Latin-1
  Supplement; every other code unit is kept as it is. Upper-casing sharp s gives two
  code units, so \<open>toUpperCase\<close> maps a unit to a list.
\<close>

definition toLowerUnit :: "int \<Rightarrow> int" where
  "toLowerUnit c =
     (if (65 \<le> c \<and> c \<le> 90) \<or> (192 \<le> c \<and> c \<le> 222 \<and> c \<noteq> 215) then c + 32 else c)"

definition toLowerCase :: "jsstring \<Rightarrow> jsstring" where
  "toLowerCase s = map toLowerUnit s"

definition toUpperUnit :: "int \<Rightarrow> jsstring" where
  "toUpperUnit c =
     (if (97 \<le> c \<and> c \<le> 122) \<or> (224 \<le> c \<and> c \<le> 254 \<and> c \<noteq> 247) then [c - 32]
      else if c = 223 then [83, 83]
      else if c = 255 then [376]
      else if c = 181 then [924]
      else [c])"

definition toUpperCase :: "jsstring \<Rightarrow> jsstring" where
  "toUpperCase s = concat (map toUpperUnit s)"

text \<open>
  The white space of \<open>String.prototype.trim\<close> and of the regular expression class
  \<open>\s\<close>: the WhiteSpace and LineTerminator code points of ECMAScript.
\<close>

definition isWhiteSpace :: "int \<Rightarrow> bool" where
  "isWhiteSpace c =
     (c \<in> set [9, 10, 11, 12, 13, 32, 160, 5760, 8232, 8233, 8239, 8287, 12288, 65279]
      \<or> (8192 \<le> c \<and> c \<le> 8202))"

definition trim :: "jsstring \<Rightarrow> jsstring" where
  "trim s = rev (dropWhile isWhiteSpace (rev (dropWhile isWhiteSpace s)))"

text \<open>
  \<open>s.normalize("NFD").replace(/[\\u0300-\\u036f]/g, "")\<close>: the canonical decomposition
  of the Latin-1 letters (a base letter and one combining mark; other code units are
  kept), then every combining mark of the block U+0300..U+036F is dropped.
\<close>

definition latin1_decomposition :: "(int \<times> jsstring) list" where
  "latin1_decomposition =
    [(192, [65, 768]), (193, [65, 769]), (194, [65, 770]), (195, [65, 771]), (196, [65, 776]),
     (197, [65, 778]), (199, [67, 807]), (200, [69, 768]), (201, [69, 769]), (202, [69, 770]),
     (203, [69, 776]), (204, [73, 768]), (205, [73, 769]), (206, [73, 770]), (207, [73, 776]),
     (209, [78, 771]), (210, [79, 768]), (211, [79, 769]), (212, [79, 770]), (213, [79, 771]),
     (214, [79, 776]), (217, [85, 768]), (218, [85, 769]), (219, [85, 770]), (220, [85, 776]),
     (221, [89, 769]), (224, [97, 768]), (225, [97, 769]), (226, [97, 770]), (227, [97, 771]),
     (228, [97, 776]), (229, [97, 778]), (231, [99, 807]), (232, [101, 768]), (233, [101, 769]),
     (234, [101, 770]), (235, [101, 776]), (236, [105, 768]), (237, [105, 769]), (238, [105, 770]),
     (239, [105, 776]), (241, [110, 771]), (242, [111, 768]), (243, [111, 769]), (244, [111, 770]),
     (245, [111, 771]), (246, [111, 776]), (249, [117, 768]), (250, [117, 769]), (251, [117, 770]),
     (252, [117, 776]), (253, [121, 769]), (255, [121, 776])]"

definition normalizeNFD :: "jsstring \<Rightarrow> jsstring" where
  "normalizeNFD s =
     concat (map (\<lambda>c. case map_of latin1_decomposition c of Some d \<Rightarrow> d | None \<Rightarrow> [c]) s)"

definition isCombiningMark :: "int \<Rightarrow> bool" where
  "isCombiningMark c = (768 \<le> c \<and> c \<le> 879)"

definition stripDiacritics :: "jsstring \<Rightarrow> jsstring" where
  "stripDiacritics s = filter (\<lambda>c. \<not> isCombiningMark c) (normalizeNFD s)"

text \<open>\<open>s.startsWith(p)\<close>, \<open>s.includes(t)\<close>, \<open>xs.join(sep)\<close> and \<open>s.split("\n")\<close>.\<close>

fun startsWith :: "jsstring \<Rightarrow> jsstring \<Rightarrow> bool" where
  "startsWith s [] = True"
| "startsWith [] (p # ps) = False"
| "startsWith (c # cs) (p # ps) = (c = p \<and> startsWith cs ps)"

fun js_includes :: "jsstring \<Rightarrow> jsstring \<Rightarrow> bool" where
  "js_includes [] t = (t = [])"
| "js_includes (c # cs) t = (startsWith (c # cs) t \<or> js_includes cs t)"

fun join :: "jsstring \<Rightarrow> jsstring list \<Rightarrow> jsstring" where
  "join sep [] = []"
| "join sep [x] = x"
| "join sep (x # y # ys) = x @ sep @ join sep (y # ys)"

fun split_lines :: "jsstring \<Rightarrow> jsstring list" where
  "split_lines [] = [[]]"
| "split_lines (c # cs) =
     (if c = 10 then [] # split_lines cs
      else (case split_lines cs of l # ls \<Rightarrow> (c # l) # ls | [] \<Rightarrow> [[c]]))"

section \<open>JavaScript objects used as dictionaries\<close>

text \<open>
  The catalog's maps are plain objects (\<open>const components = {}\<close>). The own properties
  are an association list in creation order. A read \<open>obj[k]\<close> that finds no own
  property continues in \<open>Object.prototype\<close>, whose twelve properties are functions (and
  the accessor \<open>__proto__\<close>, which yields \<open>Object.prototype\<close> itself): all truthy. The
  values stored by the program are objects, so an own property is truthy as well.
\<close>

type_synonym 'v jsobject = "(jsstring \<times> 'v) list"

definition Object_prototype_names :: "jsstring list" where
  "Object_prototype_names =
    [str ''constructor'', str ''__defineGetter__'', str ''__defineSetter__'',
     str ''hasOwnProperty'', str ''__lookupGetter__'', str ''__lookupSetter__'',
     str ''isPrototypeOf'', str ''propertyIsEnumerable'', str ''toString'', str ''valueOf'',
     str ''__proto__'', str ''toLocaleString'']"

definition hasOwn :: "'v jsobject \<Rightarrow> jsstring \<Rightarrow> bool" where
  "hasOwn obj k = (map_of obj k \<noteq> None)"

definition prop_truthy :: "'v jsobject \<Rightarrow> jsstring \<Rightarrow> bool" where
  "prop_truthy obj k = (hasOwn obj k \<or> k \<in> set Object_prototype_names)"

text \<open>
  \<open>obj[k] = v\<close> for a key that is not \<open>__proto__\<close>: an own property keeps its place,
  a new one is created last.
\<close>

fun obj_set :: "'v jsobject \<Rightarrow> jsstring \<Rightarrow> 'v \<Rightarrow> 'v jsobject" where
  "obj_set [] k v = [(k, v)]"
| "obj_set ((k', v') # ps) k v = (if k' = k then (k, v) # ps else (k', v') # obj_set ps k v)"

text \<open>
  \<open>Object.keys(obj)\<close>: the array indices (canonical decimal numerals below
  \<open>2^32 - 1\<close>) in ascending order, then the other keys in creation order.
\<close>

definition isDigit :: "int \<Rightarrow> bool" where
  "isDigit c = (48 \<le> c \<and> c \<le> 57)"

definition digitsValue :: "jsstring \<Rightarrow> int" where
  "digitsValue k = foldl (\<lambda>a c. a * 10 + (c - 48)) 0 k"

definition isArrayIndex :: "jsstring \<Rightarrow> bool" where
  "isArrayIndex k =
     (k \<noteq> [] \<and> list_all isDigit k \<and> (length k = 1 \<or> hd k \<noteq> 48) \<and> digitsValue k < 4294967295)"

definition Object_keys :: "'v jsobject \<Rightarrow> jsstring list" where
  "Object_keys obj =
     (let ks = map fst obj
      in sort_key digitsValue (filter isArrayIndex ks) @ filter (\<lambda>k. \<not> isArrayIndex k) ks)"

section \<open>The catalog\<close>

record component =
  name :: jsstring
  url :: jsstring
  description :: jsstring
  category :: jsstring
  hasHtml :: bool
  hasNunjucks :: bool
  hasAngular :: bool
  hasProps :: bool

record category_entry =
  cat_name :: jsstring
  cat_description :: jsstring
  cat_components :: "component list"

record catalog =
  categories :: "category_entry jsobject"
  components :: "component jsobject"

section \<open>The alias table and the key resolver (src/replit.md)\<close>

definition COMPONENT_ALIASES :: "(jsstring \<times> jsstring list) list" where
  "COMPONENT_ALIASES =
   [(str ''button'', [str ''button'', str ''bot'' @ [243] @ str ''n'', str ''botones'', str ''boton'']),
    (str ''button-loader'', [str ''button-loader'', str ''bot'' @ [243] @ str ''n cargando'', str ''boton cargando'', str ''loader button'']),
    (str ''modal'', [str ''modal'', str ''ventana modal'', str ''di'' @ [225] @ str ''logo'', str ''dialogo'', str ''dialog'']),
    (str ''input'', [str ''input'', str ''entrada'', str ''campo'', str ''text input'', str ''campo de texto'']),
    (str ''select'', [str ''select'', str ''selector'', str ''desplegable'', str ''dropdown'']),
    (str ''checkbox'', [str ''checkbox'', str ''casilla'', str ''casilla de verificaci'' @ [243] @ str ''n'', str ''check'']),
    (str ''radio'', [str ''radio'', str ''radio button'', str ''bot'' @ [243] @ str ''n de radio'', str ''boton de radio'']),
    (str ''accordion'', [str ''accordion'', str ''acorde'' @ [243] @ str ''n'', str ''acordeon'', str ''desplegable'']),
    (str ''alert'', [str ''alert'', str ''alerta'', str ''aviso'', str ''notificaci'' @ [243] @ str ''n'', str ''notificacion'']),
    (str ''badge'', [str ''badge'', str ''insignia'', str ''etiqueta'']),
    (str ''breadcrumb'', [str ''breadcrumb'', str ''migas de pan'', str ''breadcrumbs'', str ''navegaci'' @ [243] @ str ''n'']),
    (str ''card'', [str ''card'', str ''tarjeta'', str ''cards'', str ''tarjetas'']),
    (str ''carousel'', [str ''carousel'', str ''carrusel'', str ''slider'']),
    (str ''dropdown'', [str ''dropdown'', str ''desplegable'', str ''men'' @ [250] @ str '' desplegable'', str ''menu desplegable'']),
    (str ''footer'', [str ''footer'', str ''pie de p'' @ [225] @ str ''gina'', str ''pie de pagina'']),
    (str ''header'', [str ''header'', str ''cabecera'', str ''encabezado'']),
    (str ''icon'', [str ''icon'', str ''icono'', str ''icons'', str ''iconos'']),
    (str ''link'', [str ''link'', str ''enlace'', str ''enlaces'', str ''links'']),
    (str ''list'', [str ''list'', str ''lista'', str ''listas'', str ''lists'']),
    (str ''menu'', [str ''menu'', str ''men'' @ [250], str ''navegaci'' @ [243] @ str ''n'', str ''navegacion'', str ''nav'']),
    (str ''navbar'', [str ''navbar'', str ''barra de navegaci'' @ [243] @ str ''n'', str ''navigation bar'']),
    (str ''pagination'', [str ''pagination'', str ''paginaci'' @ [243] @ str ''n'', str ''paginacion'', str ''pager'']),
    (str ''progress'', [str ''progress'', str ''progreso'', str ''barra de progreso'', str ''progress bar'']),
    (str ''spinner'', [str ''spinner'', str ''cargando'', str ''loading'', str ''loader'']),
    (str ''tab'', [str ''tab'', str ''tabs'', str ''pesta'' @ [241] @ str ''a'', str ''pesta'' @ [241] @ str ''as'', str ''pestana'', str ''pestanas'']),
    (str ''table'', [str ''table'', str ''tabla'', str ''tablas'', str ''tables'']),
    (str ''tag'', [str ''tag'', str ''etiqueta'', str ''tags'', str ''etiquetas'']),
    (str ''textarea'', [str ''textarea'', [225] @ str ''rea de texto'', str ''area de texto'', str ''text area'']),
    (str ''toast'', [str ''toast'', str ''notificaci'' @ [243] @ str ''n'', str ''notificacion'', str ''mensaje'']),
    (str ''tooltip'', [str ''tooltip'', str ''descripci'' @ [243] @ str ''n emergente'', str ''hint'', str ''ayuda'']),
    (str ''form'', [str ''form'', str ''formulario'', str ''formularios'', str ''forms'']),
    (str ''search'', [str ''search'', str ''b'' @ [250] @ str ''squeda'', str ''busqueda'', str ''buscador'']),
    (str ''avatar'', [str ''avatar'', str ''foto de perfil'', str ''imagen de usuario'']),
    (str ''switch'', [str ''switch'', str ''interruptor'', str ''toggle'']),
    (str ''stepper'', [str ''stepper'', str ''pasos'', str ''wizard'', str ''asistente'']),
    (str ''sidebar'', [str ''sidebar'', str ''barra lateral'', str ''men'' @ [250] @ str '' lateral'', str ''menu lateral'']),
    (str ''divider'', [str ''divider'', str ''divisor'', str ''separador'', str ''l'' @ [237] @ str ''nea'', str ''linea'']),
    (str ''chip'', [str ''chip'', str ''chips'', str ''etiqueta peque'' @ [241] @ str ''a'']),
    (str ''date-picker'', [str ''date-picker'', str ''datepicker'', str ''selector de fecha'', str ''calendario'', str ''calendar'']),
    (str ''file-upload'', [str ''file-upload'', str ''subir archivo'', str ''upload'', str ''carga de archivos'']),
    (str ''autocomplete'', [str ''autocomplete'', str ''autocompletar'', str ''sugerencias''])]"

text \<open>
  \<open>searchTerm.toLowerCase().trim().normalize("NFD").replace(...)\<close> for a query, and
  the same without \<open>trim\<close> for an alias of the table.
\<close>

definition normalizeQuery :: "jsstring \<Rightarrow> jsstring" where
  "normalizeQuery s = stripDiacritics (trim (toLowerCase s))"

definition normalizeAlias :: "jsstring \<Rightarrow> jsstring" where
  "normalizeAlias s = stripDiacritics (toLowerCase s)"

text \<open>
  \<open>normalizeComponentName\<close>: \<open>None\<close> is JavaScript's \<open>null\<close>, returned for the empty
  string (the argument has type string here, so the \<open>typeof\<close> test is settled). The
  two nested loops return at the first alias, in table order, that equals the query,
  is contained in it or contains it.
\<close>

definition aliasTouches :: "jsstring \<Rightarrow> jsstring \<Rightarrow> bool" where
  "aliasTouches normalized alias =
     (let normalizedAlias = normalizeAlias alias
      in normalizedAlias = normalized \<or> js_includes normalized normalizedAlias
         \<or> js_includes normalizedAlias normalized)"

definition normalizeComponentName :: "jsstring \<Rightarrow> jsstring option" where
  "normalizeComponentName input =
     (if input = [] then None
      else let normalized = normalizeQuery input
           in (case find (\<lambda>(canonical, aliases). list_ex (aliasTouches normalized) aliases)
                      COMPONENT_ALIASES of
                 Some (canonical, aliases) \<Rightarrow> Some canonical
               | None \<Rightarrow> Some normalized))"

text \<open>
  \<open>findComponentKey\<close>, step by step as the source has it: the argument guard, the exact
  match, the loop over the alias table (\<open>aliasLoop\<close>, whose inner loop over one group is
  \<open>aliasHit\<close>), the substring scan over \<open>Object.keys(components)\<close>.
\<close>

fun aliasHit :: "component jsobject \<Rightarrow> jsstring list \<Rightarrow> jsstring option" where
  "aliasHit comps [] = None"
| "aliasHit comps (alias # rest) =
     (let normalizedAlias = normalizeAlias alias
      in if prop_truthy comps normalizedAlias then Some normalizedAlias
         else let withHtml = normalizedAlias @ str '' (html)''
              in if prop_truthy comps withHtml then Some withHtml
                 else aliasHit comps rest)"

definition isMatch :: "jsstring option \<Rightarrow> jsstring \<Rightarrow> jsstring \<times> jsstring list \<Rightarrow> bool" where
  "isMatch canonicalName normalized grp =
     (Some (fst grp) = canonicalName
      \<or> list_ex (\<lambda>alias. normalizeAlias alias = normalized) (snd grp))"

fun aliasLoop ::
  "component jsobject \<Rightarrow> jsstring option \<Rightarrow> jsstring \<Rightarrow> (jsstring \<times> jsstring list) list
     \<Rightarrow> jsstring option" where
  "aliasLoop comps canonicalName normalized [] = None"
| "aliasLoop comps canonicalName normalized (grp # groups) =
     (case (if isMatch canonicalName normalized grp then aliasHit comps (snd grp) else None) of
        Some k \<Rightarrow> Some k
      | None \<Rightarrow> aliasLoop comps canonicalName normalized groups)"

definition fuzzyMatch :: "component jsobject \<Rightarrow> jsstring \<Rightarrow> jsstring option" where
  "fuzzyMatch comps normalized =
     find (\<lambda>compKey. let compKeyNorm = stripDiacritics compKey
                     in js_includes compKeyNorm normalized \<or> js_includes normalized compKeyNorm)
          (Object_keys comps)"

definition findComponentKey :: "component jsobject \<Rightarrow> jsstring \<Rightarrow> jsstring option" where
  "findComponentKey comps searchTerm =
     (if searchTerm = [] then None
      else let normalized = normalizeQuery searchTerm
           in if prop_truthy comps normalized then Some normalized
              else let canonicalName = normalizeComponentName searchTerm
                   in (case aliasLoop comps canonicalName normalized COMPONENT_ALIASES of
                         Some k \<Rightarrow> Some k
                       | None \<Rightarrow> fuzzyMatch comps normalized))"

section \<open>The index parser\<close>

text \<open>
  What the program throws. \<open>TypeError\<close> is the engine's, raised by a property read on
  \<open>undefined\<close>; \<open>TransportError\<close> is the rejection of \<open>fetchUrl\<close>; \<open>Error\<close> is
  \<open>new Error(message)\<close> thrown by the program itself.
\<close>

datatype error = TypeError jsstring | TransportError jsstring | Error jsstring

fun error_message :: "error \<Rightarrow> jsstring" where
  "error_message (TypeError m) = m"
| "error_message (TransportError m) = m"
| "error_message (Error m) = m"

text \<open>
  \<open>parseMarkdownLink\<close>: \<open>line.trim().match(/\[([^\]]+)\]\(([^)]+)\)/)\<close>. The search is
  leftmost; at an opening bracket the text is the longest run without a closing bracket
  (code unit 93), which must be non-empty and followed by \<open>](\<close>; the URL is the
  longest run without a closing parenthesis (41), non-empty and followed by one.
\<close>

definition linkAt :: "jsstring \<Rightarrow> (jsstring \<times> jsstring) option" where
  "linkAt s =
     (case s of
        [] \<Rightarrow> None
      | c # r \<Rightarrow>
          if c \<noteq> 91 then None
          else let text = takeWhile (\<lambda>x. x \<noteq> 93) r; r2 = dropWhile (\<lambda>x. x \<noteq> 93) r
               in if text = [] then None
                  else (case r2 of
                          a # b # r3 \<Rightarrow>
                            if a = 93 \<and> b = 40
                            then let url = takeWhile (\<lambda>x. x \<noteq> 41) r3;
                                     r4 = dropWhile (\<lambda>x. x \<noteq> 41) r3
                                 in if url = [] \<or> r4 = [] then None else Some (text, url)
                            else None
                        | _ \<Rightarrow> None))"

fun linkSearch :: "jsstring \<Rightarrow> (jsstring \<times> jsstring) option" where
  "linkSearch [] = None"
| "linkSearch (c # cs) =
     (case linkAt (c # cs) of Some l \<Rightarrow> Some l | None \<Rightarrow> linkSearch cs)"

definition parseMarkdownLink :: "jsstring \<Rightarrow> (jsstring \<times> jsstring) option" where
  "parseMarkdownLink line = linkSearch (trim line)"

record parse_state =
  ps_categories :: "category_entry jsobject"
  ps_components :: "component jsobject"
  currentCategory :: "jsstring option"

definition initial_parse_state :: parse_state where
  "initial_parse_state = \<lparr>ps_categories = [], ps_components = [], currentCategory = None\<rparr>"

text \<open>\<open>currentCategory || "General"\<close>: \<open>null\<close> and the empty string are falsy.\<close>

definition categoryOrGeneral :: "jsstring option \<Rightarrow> jsstring" where
  "categoryOrGeneral cc =
     (case cc of None \<Rightarrow> str ''General'' | Some c \<Rightarrow> if c = [] then str ''General'' else c)"

text \<open>
  \<open>categories[currentCategory].components.push(component)\<close>, under its guard
  \<open>currentCategory && categories[currentCategory]\<close>. When the guard is satisfied by a
  property inherited from \<open>Object.prototype\<close>, the value read has no \<open>components\<close>
  and the call of \<open>push\<close> on \<open>undefined\<close> throws.
\<close>

definition pushToCategory :: "parse_state \<Rightarrow> component \<Rightarrow> error + parse_state" where
  "pushToCategory st cpt =
     (case currentCategory st of
        None \<Rightarrow> Inr st
      | Some cc \<Rightarrow>
          if cc \<noteq> [] \<and> prop_truthy (ps_categories st) cc
          then (case map_of (ps_categories st) cc of
                  Some cat \<Rightarrow>
                    Inr (st\<lparr>ps_categories :=
                            obj_set (ps_categories st) cc
                              (cat\<lparr>cat_components := cat_components cat @ [cpt]\<rparr>)\<rparr>)
                | None \<Rightarrow>
                    Inl (TypeError (str ''Cannot read properties of undefined (reading 'push')'')))
          else Inr st)"

subsection \<open>The revised parser (src/replit.md, lines 304 to 369)\<close>

text \<open>
  A heading of either level sets the current category and registers it when the name is
  non-empty and \<open>categories[name]\<close> is falsy; the two levels differ in the wording of
  the description.
\<close>

definition enterCategory :: "jsstring \<Rightarrow> jsstring \<Rightarrow> parse_state \<Rightarrow> parse_state" where
  "enterCategory wording cc st =
     (if cc \<noteq> [] \<and> \<not> prop_truthy (ps_categories st) cc
      then st\<lparr>currentCategory := Some cc,
              ps_categories :=
                obj_set (ps_categories st) cc
                  \<lparr>cat_name = cc, cat_description = wording @ toLowerCase cc,
                   cat_components = []\<rparr>\<rparr>
      else st\<lparr>currentCategory := Some cc\<rparr>)"

text \<open>
  \<open>stripped.replace(/^-\s*/, "").replace(/^\s*-\s*/, "")\<close>: a leading dash with the
  white space after it is removed, then once more a dash that follows.
\<close>

definition bulletText :: "jsstring \<Rightarrow> jsstring" where
  "bulletText stripped =
     (let once = (case stripped of
                    [] \<Rightarrow> []
                  | c # r \<Rightarrow> if c = 45 then dropWhile isWhiteSpace r else stripped)
      in (case dropWhile isWhiteSpace once of
            [] \<Rightarrow> once
          | c # r \<Rightarrow> if c = 45 then dropWhile isWhiteSpace r else once))"

definition makeComponent :: "jsstring option \<Rightarrow> jsstring \<Rightarrow> jsstring \<Rightarrow> component" where
  "makeComponent cc text link_url =
     (let urlLower = toLowerCase link_url
      in \<lparr>name = text, url = link_url, description = text,
          category = categoryOrGeneral cc,
          hasHtml = (js_includes urlLower (str ''-codigo'') \<and> \<not> js_includes urlLower (str ''-angular'')),
          hasNunjucks = js_includes urlLower (str ''nunjucks''),
          hasAngular = js_includes urlLower (str ''angular''),
          hasProps = (js_includes urlLower (str ''propiedades'') \<or> js_includes urlLower (str ''props''))\<rparr>)"

definition addComponent :: "parse_state \<Rightarrow> component \<Rightarrow> error + parse_state" where
  "addComponent st cpt =
     (let key = toLowerCase (name cpt)
      in pushToCategory
           (if \<not> prop_truthy (ps_components st) key
            then st\<lparr>ps_components := obj_set (ps_components st) key cpt\<rparr>
            else st)
           cpt)"

definition parseLine :: "parse_state \<Rightarrow> jsstring \<Rightarrow> error + parse_state" where
  "parseLine st line =
     (let stripped = trim line
      in if stripped = [] then Inr st
         else if startsWith stripped (str ''## '')
         then Inr (enterCategory (str ''Documentaci'' @ [243] @ str ''n de '') (trim (drop 3 stripped)) st)
         else if startsWith stripped (str ''### '')
         then Inr (enterCategory (str ''Componentes de '') (trim (drop 4 stripped)) st)
         else if startsWith stripped (str ''- '') \<or> startsWith stripped (str ''  - '')
         then (case parseMarkdownLink (bulletText stripped) of
                 None \<Rightarrow> Inr st
               | Some (text, link_url) \<Rightarrow>
                   if js_includes link_url (str ''/componente-'')
                   then addComponent st (makeComponent (currentCategory st) text link_url)
                   else Inr st)
         else Inr st)"

fun parseLines :: "parse_state \<Rightarrow> jsstring list \<Rightarrow> error + parse_state" where
  "parseLines st [] = Inr st"
| "parseLines st (line # rest) =
     (case parseLine st line of Inl e \<Rightarrow> Inl e | Inr st' \<Rightarrow> parseLines st' rest)"

definition parseLlmsTxt :: "jsstring \<Rightarrow> error + catalog" where
  "parseLlmsTxt content =
     (case parseLines initial_parse_state (split_lines content) of
        Inl e \<Rightarrow> Inl e
      | Inr st \<Rightarrow> Inr \<lparr>categories = ps_categories st, components = ps_components st\<rparr>)"

subsection \<open>The parser of src/server-desy.js (lines 59 to 113)\<close>

text \<open>
  The same loop in the file src/server-desy.js (install-desy-mcp/server-desy.js has it
  word for word). It differs in four places: a level-3 heading sets the current category
  without registering it; only \<open>"- "\<close> starts a bullet, cut by \<open>slice(2)\<close>; a URL that
  ends in \<open>.md\<close> is left out and \<open>hasHtml\<close> is the plain test for \<open>-codigo\<close>; and the
  component is stored without a guard, \<open>components[key] = component\<close>. An assignment to
  the key \<open>__proto__\<close> runs the setter of \<open>Object.prototype\<close>: it replaces the
  prototype of \<open>components\<close> and creates no own property, which the state records in
  \<open>sd_prototype\<close>.
\<close>

record sd_state =
  sd_categories :: "category_entry jsobject"
  sd_components :: "component jsobject"
  sd_prototype :: "component option"
  sd_current :: "jsstring option"

record sd_catalog =
  sd_cat_categories :: "category_entry jsobject"
  sd_cat_components :: "component jsobject"
  sd_cat_prototype :: "component option"

definition endsWith :: "jsstring \<Rightarrow> jsstring \<Rightarrow> bool" where
  "endsWith s suffix = startsWith (rev s) (rev suffix)"

definition sd_makeComponent :: "jsstring option \<Rightarrow> jsstring \<Rightarrow> jsstring \<Rightarrow> component" where
  "sd_makeComponent cc text link_url =
     \<lparr>name = text, url = link_url, description = text,
      category = categoryOrGeneral cc,
      hasHtml = js_includes link_url (str ''-codigo''),
      hasNunjucks = js_includes (toLowerCase link_url) (str ''nunjucks''),
      hasAngular = js_includes (toLowerCase link_url) (str ''angular''),
      hasProps = (js_includes (toLowerCase link_url) (str ''propiedades'')
                  \<or> js_includes (toLowerCase link_url) (str ''props''))\<rparr>"

definition sd_addComponent :: "sd_state \<Rightarrow> component \<Rightarrow> error + sd_state" where
  "sd_addComponent st cpt =
     (let key = toLowerCase (name cpt);
          st1 = (if key = str ''__proto__'' then st\<lparr>sd_prototype := Some cpt\<rparr>
                 else st\<lparr>sd_components := obj_set (sd_components st) key cpt\<rparr>)
      in (case sd_current st1 of
            None \<Rightarrow> Inr st1
          | Some cc \<Rightarrow>
              if cc \<noteq> [] \<and> prop_truthy (sd_categories st1) cc
              then (case map_of (sd_categories st1) cc of
                      Some cat \<Rightarrow>
                        Inr (st1\<lparr>sd_categories :=
                                obj_set (sd_categories st1) cc
                                  (cat\<lparr>cat_components := cat_components cat @ [cpt]\<rparr>)\<rparr>)
                    | None \<Rightarrow>
                        Inl (TypeError (str ''Cannot read properties of undefined (reading 'push')'')))
              else Inr st1))"

definition sd_parseLine :: "sd_state \<Rightarrow> jsstring \<Rightarrow> error + sd_state" where
  "sd_parseLine st line =
     (let stripped = trim line
      in if stripped = [] then Inr st
         else if startsWith stripped (str ''## '')
         then (let cc = trim (drop 3 stripped)
               in Inr (if cc \<noteq> [] \<and> \<not> prop_truthy (sd_categories st) cc
                       then st\<lparr>sd_current := Some cc,
                               sd_categories :=
                                 obj_set (sd_categories st) cc
                                   \<lparr>cat_name = cc,
                                    cat_description =
                                      str ''Documentaci'' @ [243] @ str ''n de '' @ toLowerCase cc,
                                    cat_components = []\<rparr>\<rparr>
                       else st\<lparr>sd_current := Some cc\<rparr>))
         else if startsWith stripped (str ''### '')
         then Inr (st\<lparr>sd_current := Some (trim (drop 4 stripped))\<rparr>)
         else if startsWith stripped (str ''- '')
         then (case parseMarkdownLink (drop 2 stripped) of
                 None \<Rightarrow> Inr st
               | Some (text, link_url) \<Rightarrow>
                   if js_includes link_url (str ''/componente-'') \<and> \<not> endsWith link_url (str ''.md'')
                   then sd_addComponent st (sd_makeComponent (sd_current st) text link_url)
                   else Inr st)
         else Inr st)"

fun sd_parseLines :: "sd_state \<Rightarrow> jsstring list \<Rightarrow> error + sd_state" where
  "sd_parseLines st [] = Inr st"
| "sd_parseLines st (line # rest) =
     (case sd_parseLine st line of Inl e \<Rightarrow> Inl e | Inr st' \<Rightarrow> sd_parseLines st' rest)"

definition sd_parseLlmsTxt :: "jsstring \<Rightarrow> error + sd_catalog" where
  "sd_parseLlmsTxt content =
     (case sd_parseLines
             \<lparr>sd_categories = [], sd_components = [], sd_prototype = None, sd_current = None\<rparr>
             (split_lines content) of
        Inl e \<Rightarrow> Inl e
      | Inr st \<Rightarrow>
          Inr \<lparr>sd_cat_categories = sd_categories st, sd_cat_components = sd_components st,
               sd_cat_prototype = sd_prototype st\<rparr>)"

text \<open>
  For stating the parser's properties: the category name a line sets, if it is a
  heading (the tests of \<open>parseLine\<close>, in its order); whether that name is free of the
  property names of \<open>Object.prototype\<close>; whether a component stands in the list of the
  category it names; and the invariant of the loop of the revised parser.
\<close>

definition headingName :: "jsstring \<Rightarrow> jsstring option" where
  "headingName line =
     (let stripped = trim line
      in if stripped = [] then None
         else if startsWith stripped (str ''## '') then Some (trim (drop 3 stripped))
         else if startsWith stripped (str ''### '') then Some (trim (drop 4 stripped))
         else None)"

definition ownedHeading :: "jsstring \<Rightarrow> bool" where
  "ownedHeading line =
     (case headingName line of None \<Rightarrow> True | Some n \<Rightarrow> n \<notin> set Object_prototype_names)"

definition linked :: "category_entry jsobject \<Rightarrow> component \<Rightarrow> bool" where
  "linked cats c =
     (case map_of cats (category c) of None \<Rightarrow> False | Some e \<Rightarrow> c \<in> set (cat_components e))"

definition parse_invariant :: "parse_state \<Rightarrow> bool" where
  "parse_invariant st =
     (distinct (map fst (ps_categories st)) \<and> distinct (map fst (ps_components st))
      \<and> (\<forall>n e c. map_of (ps_categories st) n = Some e \<and> c \<in> set (cat_components e)
             \<longrightarrow> category c = n)
      \<and> (\<forall>k c. map_of (ps_components st) k = Some c
             \<longrightarrow> category c = str ''General'' \<or> linked (ps_categories st) c)
      \<and> (\<forall>cc. currentCategory st = Some cc \<and> cc \<noteq> [] \<longrightarrow> prop_truthy (ps_categories st) cc))"

section \<open>The catalog cache\<close>

text \<open>
  \<open>fetchLlmsTxt\<close> is the same function in every file. The module variable \<open>cache\<close> is
  passed in and returned; \<open>now\<close> is \<open>Date.now()\<close>; \<open>fetched\<close> is how the promise of
  \<open>fetchUrl(LLMS_TXT_URL)\<close> settles (\<open>Inl\<close> rejected, \<open>Inr\<close> resolved with the body).
  The parser runs inside the same \<open>try\<close> block, so what it throws reaches the same
  \<open>catch\<close>. A call is taken as one step: no other call changes the slot while it
  waits for the fetch.
\<close>

record cache =
  data :: "catalog option"
  timestamp :: int

definition CACHE_DURATION_MS :: int where
  "CACHE_DURATION_MS = 24 * 60 * 60 * 1000"

definition initial_cache :: cache where
  "initial_cache = \<lparr>data = None, timestamp = 0\<rparr>"

definition fetchLlmsTxt ::
  "bool \<Rightarrow> int \<Rightarrow> error + jsstring \<Rightarrow> cache \<Rightarrow> (error + catalog) \<times> cache" where
  "fetchLlmsTxt forceRefresh now fetched c =
     (let cacheExpired = (now - timestamp c > CACHE_DURATION_MS)
      in (case (if \<not> forceRefresh \<and> \<not> cacheExpired then data c else None) of
            Some d \<Rightarrow> (Inr d, c)
          | None \<Rightarrow>
              (case (case fetched of Inl e \<Rightarrow> Inl e | Inr content \<Rightarrow> parseLlmsTxt content) of
                 Inr parsed \<Rightarrow> (Inr parsed, \<lparr>data = Some parsed, timestamp = now\<rparr>)
               | Inl e \<Rightarrow>
                   (case data c of
                      Some d \<Rightarrow> (Inr d, c)
                    | None \<Rightarrow>
                        (Inl (Error (str ''Failed to fetch llms.txt: '' @ error_message e)), c)))))"

text \<open>\<open>refreshCache\<close> empties the slot before it fetches.\<close>

definition refreshCache :: "int \<Rightarrow> error + jsstring \<Rightarrow> cache \<Rightarrow> (error + jsstring \<times> jsstring) \<times> cache" where
  "refreshCache now fetched c =
     (case fetchLlmsTxt True now fetched \<lparr>data = None, timestamp = 0\<rparr> of
        (Inl e, c') \<Rightarrow> (Inl e, c')
      | (Inr parsed, c') \<Rightarrow>
          (Inr (str ''success'', str ''Cache actualizado correctamente''), c'))"

section \<open>The snippet extractor (src/replit.md, lines 194 to 280)\<close>

record example =
  title :: jsstring
  html :: "jsstring option"
  nunjucks :: "jsstring option"
  ex_description :: jsstring

datatype block_type = HtmlBlock | NunjucksBlock

record extractor_state =
  examples :: "example list"
  currentExample :: "example option"
  inCodeBlock :: bool
  codeBlockType :: "block_type option"
  codeBuffer :: "jsstring list"

text \<open>
  The two heading patterns, \<open>/^###\s+(.+)\s*\[#\]/\<close> and \<open>/^###\s+(.+)/\<close>; each
  function returns the text of the capture group. The dot matches every code unit but
  the four line terminators. The matcher backtracks as the engine does: the white space
  run is tried from its longest length down to one and, for the first pattern, the
  captured run from its longest length down to one, until the rest of the pattern
  (optional white space, then \<open>[#]\<close>) follows.
\<close>

definition isDot :: "int \<Rightarrow> bool" where
  "isDot c = (c \<notin> set [10, 13, 8232, 8233])"

fun firstSome :: "('a \<Rightarrow> 'b option) \<Rightarrow> 'a list \<Rightarrow> 'b option" where
  "firstSome f [] = None"
| "firstSome f (x # xs) = (case f x of Some y \<Rightarrow> Some y | None \<Rightarrow> firstSome f xs)"

definition downFrom :: "nat \<Rightarrow> nat list" where
  "downFrom n = rev [1..<Suc n]"

definition dotRun :: "jsstring \<Rightarrow> jsstring" where
  "dotRun s = takeWhile isDot s"

definition matchHeading :: "jsstring \<Rightarrow> jsstring option" where
  "matchHeading line =
     (if startsWith line (str ''###'')
      then let rest = drop 3 line
           in firstSome (\<lambda>k. if dotRun (drop k rest) = [] then None
                              else Some (dotRun (drop k rest)))
                (downFrom (length (takeWhile isWhiteSpace rest)))
      else None)"

definition matchAnchoredHeading :: "jsstring \<Rightarrow> jsstring option" where
  "matchAnchoredHeading line =
     (if startsWith line (str ''###'')
      then let rest = drop 3 line
           in firstSome
                (\<lambda>k. let start = drop k rest
                      in firstSome
                           (\<lambda>j. if startsWith (dropWhile isWhiteSpace (drop j start)) (str ''[#]'')
                                 then Some (take j start) else None)
                           (downFrom (length (dotRun start))))
                (downFrom (length (takeWhile isWhiteSpace rest)))
      else None)"

definition headingTitle :: "jsstring \<Rightarrow> jsstring option" where
  "headingTitle line =
     (case matchAnchoredHeading line of
        Some captured \<Rightarrow> Some (trim captured)
      | None \<Rightarrow> (case matchHeading line of
                   Some captured \<Rightarrow> Some (trim captured)
                 | None \<Rightarrow> None))"

text \<open>\<open>currentExample.html || currentExample.nunjucks\<close>: \<open>null\<close> and \<open>""\<close> are falsy.\<close>

definition truthyCode :: "jsstring option \<Rightarrow> bool" where
  "truthyCode code = (case code of None \<Rightarrow> False | Some s \<Rightarrow> s \<noteq> [])"

definition hasCode :: "example \<Rightarrow> bool" where
  "hasCode ex = (truthyCode (html ex) \<or> truthyCode (nunjucks ex))"

definition flushExample :: "extractor_state \<Rightarrow> example list" where
  "flushExample st =
     (case currentExample st of
        None \<Rightarrow> examples st
      | Some ex \<Rightarrow> if hasCode ex then examples st @ [ex] else examples st)"

definition headingStep :: "extractor_state \<Rightarrow> jsstring \<Rightarrow> extractor_state" where
  "headingStep st line =
     (case headingTitle line of
        None \<Rightarrow> st
      | Some t \<Rightarrow>
          st\<lparr>examples := flushExample st,
             currentExample := Some \<lparr>title = t, html = None, nunjucks = None, ex_description = []\<rparr>\<rparr>)"

definition commitCode :: "extractor_state \<Rightarrow> extractor_state" where
  "commitCode st =
     (case currentExample st of
        None \<Rightarrow> st
      | Some ex \<Rightarrow>
          (let code = trim (join [10] (codeBuffer st))
           in (case codeBlockType st of
                 Some HtmlBlock \<Rightarrow> st\<lparr>currentExample := Some (ex\<lparr>html := Some code\<rparr>)\<rparr>
               | Some NunjucksBlock \<Rightarrow> st\<lparr>currentExample := Some (ex\<lparr>nunjucks := Some code\<rparr>)\<rparr>
               | None \<Rightarrow> st)))"

definition fenceStep :: "extractor_state \<Rightarrow> jsstring \<Rightarrow> extractor_state" where
  "fenceStep st line =
     (if startsWith line (str ''```html'')
      then st\<lparr>inCodeBlock := True, codeBlockType := Some HtmlBlock, codeBuffer := []\<rparr>
      else if startsWith line (str ''```js'') \<or> startsWith line (str ''```javascript'')
      then st\<lparr>inCodeBlock := True, codeBlockType := Some NunjucksBlock, codeBuffer := []\<rparr>
      else if line = str ''```'' \<and> inCodeBlock st
      then (commitCode st)\<lparr>inCodeBlock := False, codeBlockType := None, codeBuffer := []\<rparr>
      else if inCodeBlock st then st\<lparr>codeBuffer := codeBuffer st @ [line]\<rparr>
      else st)"

definition lineStep :: "extractor_state \<Rightarrow> jsstring \<Rightarrow> extractor_state" where
  "lineStep st line = fenceStep (headingStep st line) line"

definition initial_extractor_state :: extractor_state where
  "initial_extractor_state =
     \<lparr>examples = [], currentExample = None, inCodeBlock = False, codeBlockType = None,
      codeBuffer = []\<rparr>"

text \<open>
  \<open>parseCodeBlocks(markdown, format)\<close>; the body never reads \<open>format\<close>, so the model
  leaves the parameter out.
\<close>

definition parseCodeBlocks :: "jsstring \<Rightarrow> example list" where
  "parseCodeBlocks markdown =
     flushExample (foldl lineStep initial_extractor_state (split_lines markdown))"

text \<open>
  \<open>formatCodeOutput(examples, format, variant)\<close>; \<open>None\<close> is the default \<open>null\<close> of
  \<open>variant\<close>, and the empty string is falsy like it.
\<close>

definition normalizeTitle :: "jsstring \<Rightarrow> jsstring" where
  "normalizeTitle s = stripDiacritics (toLowerCase s)"

definition variantMatches :: "jsstring \<Rightarrow> example \<Rightarrow> bool" where
  "variantMatches variantLower ex =
     (let titleNorm = normalizeTitle (title ex)
      in js_includes titleNorm variantLower \<or> js_includes variantLower titleNorm)"

definition selectVariant :: "example list \<Rightarrow> jsstring option \<Rightarrow> example list" where
  "selectVariant exs variant =
     (case variant of
        None \<Rightarrow> exs
      | Some v \<Rightarrow>
          if v = [] then exs
          else let filtered = filter (variantMatches (normalizeTitle v)) exs
               in if length filtered > 0 then filtered else exs)"

definition renderExample :: "jsstring \<Rightarrow> example \<Rightarrow> jsstring list" where
  "renderExample format ex =
     (let code = (if format = str ''html'' then html ex else nunjucks ex)
      in (case code of
            None \<Rightarrow> []
          | Some c \<Rightarrow>
              if c = [] then []
              else [str ''### '' @ title ex @ [10] @ str ''```''
                    @ (if format = str ''html'' then str ''html'' else str ''js'')
                    @ [10] @ c @ [10] @ str ''```'']))"

definition formatCodeOutput :: "example list \<Rightarrow> jsstring \<Rightarrow> jsstring option \<Rightarrow> jsstring" where
  "formatCodeOutput exs format variant =
     (let output = concat (map (renderExample format) (selectVariant exs variant))
      in if length output = 0
         then str ''No se encontraron ejemplos de c'' @ [243] @ str ''digo '' @ toUpperCase format
              @ str '' para este componente.''
         else join [10, 10] output)"

section \<open>The query operation getComponentCode (src/replit.md, lines 392 to 454)\<close>

text \<open>Decimal numerals of template literals, and \<open>replace\<close> with a string pattern.\<close>

fun showNat :: "nat \<Rightarrow> jsstring" where
  "showNat n = (if n < 10 then [48 + int n] else showNat (n div 10) @ [48 + int (n mod 10)])"

fun replaceFirst :: "jsstring \<Rightarrow> jsstring \<Rightarrow> jsstring \<Rightarrow> jsstring" where
  "replaceFirst [] pat rep = (if pat = [] then rep else [])"
| "replaceFirst (c # cs) pat rep =
     (if startsWith (c # cs) pat then rep @ drop (length pat) (c # cs)
      else c # replaceFirst cs pat rep)"

text \<open>
  The error payloads of \<open>getComponentCode\<close>. \<open>missingComponentMessage\<close> is the return
  value of lines 395 to 398, \<open>notFoundMessage\<close> that of lines 402 to 419. Code unit 39
  is the apostrophe, 191 the inverted question mark.
\<close>

definition missingComponentMessage :: "component jsobject \<Rightarrow> jsstring" where
  "missingComponentMessage comps =
     (let available = Object_keys comps
      in str ''Error: Debes especificar un nombre de componente.'' @ [10, 10]
         @ str ''Componentes disponibles ('' @ showNat (length available) @ str '' total):''
         @ [10] @ str ''- '' @ join (10 # str ''- '') available)"

definition suggestionsFor :: "jsstring list \<Rightarrow> jsstring \<Rightarrow> jsstring list" where
  "suggestionsFor available cname =
     (let searchNorm = stripDiacritics (toLowerCase cname)
      in take 5 (filter (\<lambda>k. let kNorm = stripDiacritics k
                              in js_includes kNorm (take 3 searchNorm)
                                 \<or> js_includes searchNorm (take 3 kNorm))
                   available))"

definition notFoundMessage :: "component jsobject \<Rightarrow> jsstring \<Rightarrow> jsstring" where
  "notFoundMessage comps cname =
     (let available = Object_keys comps;
          suggestions = suggestionsFor available cname
      in str ''Componente '' @ [39] @ cname @ [39] @ str '' no encontrado.''
         @ (if length suggestions > 0
            then [10, 10, 191] @ str ''Quiz'' @ [225] @ str ''s quisiste decir?'' @ [10] @ str ''- ''
                 @ join (10 # str ''- '') suggestions
            else [])
         @ [10, 10] @ str ''Componentes disponibles ('' @ showNat (length available)
         @ str '' total):'' @ [10] @ str ''- '' @ join (10 # str ''- '') (take 20 available)
         @ (if length available > 20
            then [10] @ str ''... y '' @ showNat (length available - 20) @ str '' m'' @ [225] @ str ''s''
            else []))"

text \<open>
  The whole operation, after \<open>await fetchLlmsTxt()\<close> has given the component map. The
  argument \<open>component\<close> is \<open>None\<close> when it is missing or not a string. \<open>fetchUrl\<close> is
  a function from the URL to how its promise settles. A key that \<open>findComponentKey\<close>
  found in \<open>Object.prototype\<close> gives a value without \<open>url\<close>, and the call of
  \<open>includes\<close> on it throws outside every \<open>try\<close>.
\<close>

definition codeUrlFor :: "jsstring \<Rightarrow> jsstring \<Rightarrow> jsstring" where
  "codeUrlFor tech comp_url =
     (let codeUrl = (if \<not> js_includes comp_url (str ''-codigo'')
                     then replaceFirst comp_url (str ''.html.md'') (str ''-codigo.html.md'')
                     else comp_url)
      in if tech = str ''angular'' \<and> \<not> js_includes codeUrl (str ''-angular'')
         then replaceFirst codeUrl (str ''-codigo.html.md'') (str ''-codigo-angular.html.md'')
         else codeUrl)"

definition getComponentCode ::
  "(jsstring \<Rightarrow> error + jsstring) \<Rightarrow> component jsobject \<Rightarrow> jsstring \<Rightarrow> jsstring option
     \<Rightarrow> jsstring option \<Rightarrow> error + jsstring" where
  "getComponentCode fetchUrl comps tech component variant =
     (case component of
        None \<Rightarrow> Inr (missingComponentMessage comps)
      | Some cname \<Rightarrow>
          if cname = [] then Inr (missingComponentMessage comps)
          else (case findComponentKey comps cname of
                  None \<Rightarrow> Inr (notFoundMessage comps cname)
                | Some key \<Rightarrow>
                    (case map_of comps key of
                       None \<Rightarrow>
                         Inl (TypeError
                               (str ''Cannot read properties of undefined (reading 'includes')''))
                     | Some cpt \<Rightarrow>
                         (let codeUrl = codeUrlFor tech (url cpt);
                              format = (if tech = str ''nunjucks'' then str ''nunjucks''
                                        else str ''html'')
                          in (case fetchUrl codeUrl of
                                Inr content \<Rightarrow>
                                  (let exs = parseCodeBlocks content
                                   in if length exs = 0
                                      then Inr (str ''No se encontraron ejemplos de c'' @ [243]
                                                @ str ''digo para '' @ [39] @ name cpt @ [39]
                                                @ str ''.'' @ [10, 10]
                                                @ str ''Contenido disponible en: '' @ codeUrl)
                                      else Inr (str ''## '' @ name cpt @ str '' - C'' @ [243]
                                                @ str ''digo '' @ toUpperCase format @ [10, 10]
                                                @ formatCodeOutput exs format variant))
                              | Inl err \<Rightarrow>
                                  (case fetchUrl (url cpt) of
                                     Inr fallbackContent \<Rightarrow>
                                       Inr (str ''No se pudo obtener la p'' @ [225]
                                            @ str ''gina de c'' @ [243]
                                            @ str ''digo. Documentaci'' @ [243]
                                            @ str ''n disponible:'' @ [10, 10]
                                            @ take 2000 fallbackContent @ str ''...'')
                                   | Inl err2 \<Rightarrow>
                                       Inr (str ''Error al obtener el c'' @ [243] @ str ''digo: ''
                                            @ error_message err)))))))"

text \<open>
  The kinds of line of a detail page, as the extractor tells them apart, for stating
  its properties: a line that opens a markup block, one that opens a script block, a
  line that is neither a heading nor an opening fence, and such a line that is not the
  closing fence either.
\<close>

definition opensHtml :: "jsstring \<Rightarrow> bool" where
  "opensHtml line = startsWith line (str ''```html'')"

definition opensScript :: "jsstring \<Rightarrow> bool" where
  "opensScript line = (startsWith line (str ''```js'') \<or> startsWith line (str ''```javascript''))"

definition proseLine :: "jsstring \<Rightarrow> bool" where
  "proseLine line = (headingTitle line = None \<and> \<not> opensHtml line \<and> \<not> opensScript line)"

definition codeLine :: "jsstring \<Rightarrow> bool" where
  "codeLine line = (proseLine line \<and> line \<noteq> str ''```'')"

definition sample_examples :: "example list" where
  "sample_examples =
     [\<lparr>title = str ''Primario'', html = Some (str ''<button>A</button>''), nunjucks = None,
       ex_description = []\<rparr>,
      \<lparr>title = str ''Deshabilitado'', html = Some (str ''<button disabled>B</button>''),
       nunjucks = None, ex_description = []\<rparr>]"

definition sample_page :: jsstring where
  "sample_page = str ''# Botones\<newline>### Primario\<newline>```html\<newline><button>A</button>\<newline>```\<newline>\<newline>### Deshabilitado [#]\<newline>Estado deshabilitado\<newline>```html\<newline><button disabled>\<newline>B</button>\<newline>```\<newline>''"

definition sample_page_second_only :: jsstring where
  "sample_page_second_only = str ''# Botones\<newline>### Primario\<newline>### Deshabilitado [#]\<newline>Estado deshabilitado\<newline>```html\<newline><button disabled>\<newline>B</button>\<newline>```\<newline>''"

definition sample_page_first_only :: jsstring where
  "sample_page_first_only = str ''# Botones\<newline>### Primario\<newline>```html\<newline><button>A</button>\<newline>```\<newline>\<newline>### Deshabilitado [#]\<newline>Estado deshabilitado''"

text \<open>Sample inputs for the closed theorems below.\<close>

definition sample_component :: "jsstring \<Rightarrow> component" where
  "sample_component n =
     \<lparr>name = n, url = str ''https://x/componente-'' @ n @ str ''.html.md'', description = n,
      category = str ''General'', hasHtml = False, hasNunjucks = False, hasAngular = False,
      hasProps = False\<rparr>"

definition sample_catalog21 :: "component jsobject" where
  "sample_catalog21 =
     map (\<lambda>i. (str ''c'' @ showNat i, sample_component (str ''C'' @ showNat i))) [1..<22]"

definition sample_catalog_tarjetas :: "component jsobject" where
  "sample_catalog_tarjetas =
     map (\<lambda>i. (str ''tarjeta '' @ showNat i, sample_component (str ''Tarjeta '' @ showNat i)))
       [1..<22]"

text \<open>
  For stating what an error payload lists: one line \<open>- key\<close> for each key, the lines
  joined by line feeds, as the template literals of \<open>getComponentCode\<close> build it from
  \<open>join\<close> with a line feed, a hyphen and a space.
\<close>

definition bulletList :: "jsstring list \<Rightarrow> jsstring" where
  "bulletList ks = str ''- '' @ join (10 # str ''- '') ks"

section \<open>Properties of the key resolver\<close>

lemma findComponentKey_empty: "findComponentKey comps [] = None"
  by (simp add: findComponentKey_def)

lemma js_includes_Nil: "js_includes s []"
  by (cases s) simp_all

lemma normalizeQuery_Nil: "normalizeQuery [] = []"
  by (simp add: normalizeQuery_def toLowerCase_def trim_def stripDiacritics_def normalizeNFD_def)

lemma Nil_not_inherited: "[] \<notin> set Object_prototype_names"
  by (simp add: Object_prototype_names_def str_def)

lemma prop_truthy_Nil: "prop_truthy comps [] = hasOwn comps []"
  by (simp add: prop_truthy_def Nil_not_inherited)

lemma hasOwn_prop_truthy: "hasOwn comps k \<Longrightarrow> prop_truthy comps k"
  by (simp add: prop_truthy_def)

lemma str_append: "str a @ str b = str (a @ b)"
  by (simp add: str_def)

text \<open>The loop over the alias table only ever looks into the groups that match.\<close>

lemma aliasLoop_filter:
  "aliasLoop comps cn n groups = aliasLoop comps cn n (filter (isMatch cn n) groups)"
  by (induction groups) (auto split: option.splits)

lemma aliasLoop_single:
  assumes "filter (isMatch cn n) groups = [g]"
  shows "aliasLoop comps cn n groups = aliasHit comps (snd g)"
proof -
  have "g \<in> set (filter (isMatch cn n) groups)"
    using assms by simp
  then have m: "isMatch cn n g"
    by simp
  have "aliasLoop comps cn n groups = aliasLoop comps cn n [g]"
    using aliasLoop_filter [of comps cn n groups] assms by simp
  then show ?thesis
    using m by (simp split: option.splits)
qed

lemma fuzzyMatch_Nil:
  "fuzzyMatch comps [] = (case Object_keys comps of [] \<Rightarrow> None | k # ks \<Rightarrow> Some k)"
  by (cases "Object_keys comps") (simp_all add: fuzzyMatch_def js_includes_Nil)

text \<open>
  Claim C2. When the normalized query is a key of the component map, the resolver
  returns that key at the exact-match step, whatever the alias table and the substring
  scan would give; a catalog has no empty key (the parser never makes one, see
  \<open>parseLlmsTxt_no_empty_key\<close> below), so the query passes the argument guard. When
  the exact match misses, the result is what the alias loop finds, and the substring
  scan is consulted only when the alias loop finds nothing: exact, then alias, then
  substring.
\<close>

theorem findComponentKey_precedence:
  "(\<not> hasOwn comps [] \<and> hasOwn comps (normalizeQuery q)
      \<longrightarrow> findComponentKey comps q = Some (normalizeQuery q))
   \<and> (q \<noteq> [] \<and> \<not> prop_truthy comps (normalizeQuery q)
      \<longrightarrow> findComponentKey comps q =
          (case aliasLoop comps (normalizeComponentName q) (normalizeQuery q) COMPONENT_ALIASES of
             Some k \<Rightarrow> Some k
           | None \<Rightarrow> fuzzyMatch comps (normalizeQuery q)))"
proof (intro conjI impI)
  assume a: "\<not> hasOwn comps [] \<and> hasOwn comps (normalizeQuery q)"
  then have "normalizeQuery q \<noteq> []"
    by auto
  then have "q \<noteq> []"
    using normalizeQuery_Nil by auto
  then show "findComponentKey comps q = Some (normalizeQuery q)"
    using a by (simp add: findComponentKey_def Let_def hasOwn_prop_truthy)
next
  assume "q \<noteq> [] \<and> \<not> prop_truthy comps (normalizeQuery q)"
  then show "findComponentKey comps q =
          (case aliasLoop comps (normalizeComponentName q) (normalizeQuery q) COMPONENT_ALIASES of
             Some k \<Rightarrow> Some k
           | None \<Rightarrow> fuzzyMatch comps (normalizeQuery q))"
    by (simp add: findComponentKey_def Let_def)
qed

text \<open>
  Witness for C2: a catalog with the keys \<open>tabs\<close>, \<open>pestana\<close> and \<open>tab\<close>, in this
  order. The query \<open>Tab\<close> returns the literal key \<open>tab\<close>, although the alias group of
  \<open>tab\<close> and the substring scan both meet \<open>tabs\<close> first; the query \<open>pestanas\<close> has no
  exact match and is resolved by the alias loop to \<open>tab\<close>, although the substring scan
  would give \<open>pestana\<close>.
\<close>

theorem findComponentKey_precedence_witness:
  "\<not> hasOwn [(str ''tabs'', sample_component (str ''Tabs'')),
              (str ''pestana'', sample_component (str ''Pestana'')),
              (str ''tab'', sample_component (str ''Tab''))] []
   \<and> hasOwn [(str ''tabs'', sample_component (str ''Tabs'')),
              (str ''pestana'', sample_component (str ''Pestana'')),
              (str ''tab'', sample_component (str ''Tab''))] (normalizeQuery (str ''Tab''))
   \<and> findComponentKey [(str ''tabs'', sample_component (str ''Tabs'')),
                        (str ''pestana'', sample_component (str ''Pestana'')),
                        (str ''tab'', sample_component (str ''Tab''))] (str ''Tab'')
       = Some (str ''tab'')
   \<and> str ''pestanas'' \<noteq> []
   \<and> \<not> prop_truthy [(str ''tabs'', sample_component (str ''Tabs'')),
                     (str ''pestana'', sample_component (str ''Pestana'')),
                     (str ''tab'', sample_component (str ''Tab''))] (normalizeQuery (str ''pestanas''))
   \<and> findComponentKey [(str ''tabs'', sample_component (str ''Tabs'')),
                        (str ''pestana'', sample_component (str ''Pestana'')),
                        (str ''tab'', sample_component (str ''Tab''))] (str ''pestanas'')
       = Some (str ''tab'')
   \<and> fuzzyMatch [(str ''tabs'', sample_component (str ''Tabs'')),
                  (str ''pestana'', sample_component (str ''Pestana'')),
                  (str ''tab'', sample_component (str ''Tab''))] (normalizeQuery (str ''pestanas''))
       = Some (str ''pestana'')"
  (is "\<not> hasOwn ?cat [] \<and> _")
proof -
  have h1: "\<not> hasOwn ?cat [] \<and> hasOwn ?cat (normalizeQuery (str ''Tab''))"
    by code_simp
  have n1: "normalizeQuery (str ''Tab'') = str ''tab''"
    by code_simp
  have r1: "findComponentKey ?cat (str ''Tab'') = Some (str ''tab'')"
    using findComponentKey_precedence [of ?cat "str ''Tab''"] h1 n1 by metis
  have h2: "str ''pestanas'' \<noteq> [] \<and> \<not> prop_truthy ?cat (normalizeQuery (str ''pestanas''))"
    by code_simp
  have v2: "(case aliasLoop ?cat (normalizeComponentName (str ''pestanas''))
                    (normalizeQuery (str ''pestanas'')) COMPONENT_ALIASES of
               Some k \<Rightarrow> Some k
             | None \<Rightarrow> fuzzyMatch ?cat (normalizeQuery (str ''pestanas''))) = Some (str ''tab'')"
    by code_simp
  have r2: "findComponentKey ?cat (str ''pestanas'') = Some (str ''tab'')"
    using findComponentKey_precedence [of ?cat "str ''pestanas''"] h2 v2 by metis
  have f2: "fuzzyMatch ?cat (normalizeQuery (str ''pestanas'')) = Some (str ''pestana'')"
    by code_simp
  show ?thesis
    using h1 r1 h2 r2 f2 by blast
qed

text \<open>Facts of the alias table, computed once.\<close>

lemma normalizeQuery_button: "normalizeQuery (str ''button'') = str ''button''"
  by code_simp

lemma normalizeQuery_boton: "normalizeQuery (str ''bot'' @ [243] @ str ''n'') = str ''boton''"
  by code_simp

lemma normalizeComponentName_button:
  "normalizeComponentName (str ''button'') = Some (str ''button'')"
  by code_simp

lemma normalizeComponentName_boton:
  "normalizeComponentName (str ''bot'' @ [243] @ str ''n'') = Some (str ''button'')"
  by code_simp

lemma isMatch_button:
  "filter (isMatch (Some (str ''button'')) (str ''button'')) COMPONENT_ALIASES =
     [(str ''button'', [str ''button'', str ''bot'' @ [243] @ str ''n'', str ''botones'', str ''boton''])]"
  by code_simp

lemma isMatch_boton:
  "filter (isMatch (Some (str ''button'')) (str ''boton'')) COMPONENT_ALIASES =
     [(str ''button'', [str ''button'', str ''bot'' @ [243] @ str ''n'', str ''botones'', str ''boton''])]"
  by code_simp

lemma isMatch_blank:
  "filter (isMatch (Some (str ''button'')) []) COMPONENT_ALIASES =
     [(str ''button'', [str ''button'', str ''bot'' @ [243] @ str ''n'', str ''botones'', str ''boton''])]"
  by code_simp

lemma aliasTouches_blank:
  "find (\<lambda>(canonical, aliases). list_ex (aliasTouches []) aliases) COMPONENT_ALIASES =
     Some (str ''button'', [str ''button'', str ''bot'' @ [243] @ str ''n'', str ''botones'', str ''boton''])"
  by code_simp

lemma normalizeAlias_button_group:
  "normalizeAlias (str ''button'') = str ''button''"
  "normalizeAlias (str ''bot'' @ [243] @ str ''n'') = str ''boton''"
  "normalizeAlias (str ''botones'') = str ''botones''"
  "normalizeAlias (str ''boton'') = str ''boton''"
  by code_simp+

lemma button_keys_not_inherited:
  "str ''button'' \<notin> set Object_prototype_names"
  "str ''button'' @ str '' (html)'' \<notin> set Object_prototype_names"
  "str ''boton'' \<notin> set Object_prototype_names"
  "str ''boton'' @ str '' (html)'' \<notin> set Object_prototype_names"
  "str ''botones'' \<notin> set Object_prototype_names"
  "str ''botones'' @ str '' (html)'' \<notin> set Object_prototype_names"
  by code_simp+

text \<open>
  The inner loop over the group of \<open>button\<close> returns the first of six keys that the
  catalog has: each normalized alias, then the same with the suffix \<open>(html)\<close>.
\<close>

lemma aliasHit_button_group:
  "aliasHit comps [str ''button'', str ''bot'' @ [243] @ str ''n'', str ''botones'', str ''boton''] =
     find (hasOwn comps)
       [str ''button'', str ''button (html)'', str ''boton'', str ''boton (html)'',
        str ''botones'', str ''botones (html)'']"
  unfolding aliasHit.simps normalizeAlias_button_group Let_def str_append
  using button_keys_not_inherited
  by (simp add: prop_truthy_def str_append)

text \<open>
  Claim C5, as the code has it. The queries \<open>bot\<acute>on\<close> (with the accent) and \<open>button\<close>
  resolve to the same key of the catalog, and to a key, when the catalog has at least
  one of the six keys of the alias group (\<open>button\<close>, \<open>boton\<close>, \<open>botones\<close>, each also
  with the suffix \<open>(html)\<close>) and does not have \<open>boton\<close> together with \<open>button\<close> or
  \<open>button (html)\<close>.
\<close>

theorem findComponentKey_boton_button:
  assumes "list_ex (hasOwn comps)
             [str ''button'', str ''button (html)'', str ''boton'', str ''boton (html)'',
              str ''botones'', str ''botones (html)'']"
      and "\<not> (hasOwn comps (str ''boton'')
              \<and> (hasOwn comps (str ''button'') \<or> hasOwn comps (str ''button (html)'')))"
  shows "findComponentKey comps (str ''bot'' @ [243] @ str ''n'')
           = findComponentKey comps (str ''button'')
         \<and> findComponentKey comps (str ''button'') \<noteq> None"
proof -
  have q1: "str ''bot'' @ [243] @ str ''n'' \<noteq> []" and q2: "str ''button'' \<noteq> []"
    by (simp_all add: str_def)
  have a1: "aliasLoop comps (Some (str ''button'')) (str ''boton'') COMPONENT_ALIASES =
      aliasHit comps [str ''button'', str ''bot'' @ [243] @ str ''n'', str ''botones'', str ''boton'']"
    unfolding aliasLoop_single [OF isMatch_boton] snd_conv ..
  have a2: "aliasLoop comps (Some (str ''button'')) (str ''button'') COMPONENT_ALIASES =
      aliasHit comps [str ''button'', str ''bot'' @ [243] @ str ''n'', str ''botones'', str ''boton'']"
    unfolding aliasLoop_single [OF isMatch_button] snd_conv ..
  have f1: "findComponentKey comps (str ''bot'' @ [243] @ str ''n'') =
      (if hasOwn comps (str ''boton'') then Some (str ''boton'')
       else case aliasHit comps [str ''button'', str ''bot'' @ [243] @ str ''n'', str ''botones'', str ''boton''] of
              Some k \<Rightarrow> Some k | None \<Rightarrow> fuzzyMatch comps (str ''boton''))"
    unfolding findComponentKey_def normalizeQuery_boton normalizeComponentName_boton Let_def a1
    using q1 button_keys_not_inherited(3) by (simp add: prop_truthy_def)
  have f2: "findComponentKey comps (str ''button'') =
      (if hasOwn comps (str ''button'') then Some (str ''button'')
       else case aliasHit comps [str ''button'', str ''bot'' @ [243] @ str ''n'', str ''botones'', str ''boton''] of
              Some k \<Rightarrow> Some k | None \<Rightarrow> fuzzyMatch comps (str ''button''))"
    unfolding findComponentKey_def normalizeQuery_button normalizeComponentName_button Let_def a2
    using q2 button_keys_not_inherited(1) by (simp add: prop_truthy_def)
  show ?thesis
    unfolding f1 f2 aliasHit_button_group
    using assms by (auto split: if_splits)
qed

text \<open>
  Witness for C5: a catalog whose only key is \<open>boton\<close>; both queries return it, the
  accented one by the exact match and \<open>button\<close> through the alias group.
\<close>

theorem findComponentKey_boton_button_witness:
  "list_ex (hasOwn [(str ''boton'', sample_component (str ''Boton''))])
     [str ''button'', str ''button (html)'', str ''boton'', str ''boton (html)'',
      str ''botones'', str ''botones (html)'']
   \<and> \<not> (hasOwn [(str ''boton'', sample_component (str ''Boton''))] (str ''boton'')
        \<and> (hasOwn [(str ''boton'', sample_component (str ''Boton''))] (str ''button'')
           \<or> hasOwn [(str ''boton'', sample_component (str ''Boton''))] (str ''button (html)'')))
   \<and> findComponentKey [(str ''boton'', sample_component (str ''Boton''))]
        (str ''bot'' @ [243] @ str ''n'') = Some (str ''boton'')
   \<and> findComponentKey [(str ''boton'', sample_component (str ''Boton''))] (str ''button'')
        = Some (str ''boton'')"
  (is "list_ex (hasOwn ?cat) ?keys \<and> _")
proof -
  have h1: "list_ex (hasOwn ?cat) ?keys"
    by code_simp
  have h2: "\<not> (hasOwn ?cat (str ''boton'')
              \<and> (hasOwn ?cat (str ''button'') \<or> hasOwn ?cat (str ''button (html)'')))"
    by code_simp
  have e: "findComponentKey ?cat (str ''bot'' @ [243] @ str ''n'') = Some (str ''boton'')"
    by code_simp
  show ?thesis
    using h1 h2 e findComponentKey_boton_button [OF h1 h2] by simp
qed

text \<open>
  Counterexample to C5 as stated: a catalog with both keys \<open>boton\<close> and \<open>button\<close>.
  Each query finds its own literal key at the exact-match step, which comes before the
  alias table, so the two registered variants of one alias group resolve to different
  keys.
\<close>

theorem findComponentKey_boton_button_counterexample:
  "findComponentKey [(str ''boton'', sample_component (str ''Boton'')),
                     (str ''button'', sample_component (str ''Button''))]
     (str ''bot'' @ [243] @ str ''n'') = Some (str ''boton'')
   \<and> findComponentKey [(str ''boton'', sample_component (str ''Boton'')),
                        (str ''button'', sample_component (str ''Button''))]
        (str ''button'') = Some (str ''button'')
   \<and> str ''boton'' \<noteq> str ''button''"
  by code_simp

text \<open>
  The catalog of the specification's end-to-end scenario has the accented key
  \<open>bot\<acute>on\<close>, since the parser lower-cases the link text and keeps its accents. The
  alias loop looks up normalized aliases only, so it misses that key; the accented
  query still reaches it through the substring scan, and \<open>button\<close> finds nothing.
\<close>

lemma findComponentKey_accented_key:
  "findComponentKey [(str ''bot'' @ [243] @ str ''n'', sample_component (str ''Bot'' @ [243] @ str ''n''))]
     (str ''bot'' @ [243] @ str ''n'') = Some (str ''bot'' @ [243] @ str ''n'')
   \<and> findComponentKey [(str ''bot'' @ [243] @ str ''n'', sample_component (str ''Bot'' @ [243] @ str ''n''))]
     (str ''button'') = None"
  by code_simp

text \<open>
  Two variants of one group need not resolve alike even when neither is a literal key.
  \<open>nav\<close> and \<open>menu\<close> are variants of the group \<open>menu\<close>, but
  \<open>normalizeComponentName\<close> returns the first group with a variant that contains the
  query: \<open>breadcrumb\<close> for \<open>nav\<close> and \<open>dropdown\<close> for \<open>menu\<close>. In a catalog with the
  keys \<open>breadcrumb\<close> and \<open>dropdown\<close> each query resolves to the key of that group.
\<close>

lemma findComponentKey_nav_menu:
  "findComponentKey [(str ''breadcrumb'', sample_component (str ''Breadcrumb'')),
                     (str ''dropdown'', sample_component (str ''Dropdown''))] (str ''nav'')
     = Some (str ''breadcrumb'')
   \<and> findComponentKey [(str ''breadcrumb'', sample_component (str ''Breadcrumb'')),
                        (str ''dropdown'', sample_component (str ''Dropdown''))] (str ''menu'')
     = Some (str ''dropdown'')"
  by code_simp

text \<open>
  Claim C10, as the code has it. A non-empty query whose normalization is empty (only
  white space, or only combining marks) misses the exact match in a catalog without an
  empty key. \<open>normalizeComponentName\<close> then returns \<open>button\<close>, the first canonical
  name of the table, because every alias contains the empty string; so the alias loop
  tries the group of \<open>button\<close> and returns the first of its six keys that the catalog
  has. Only when the catalog has none of them does the substring scan run, and it
  returns the first key of \<open>Object.keys(components)\<close>; the result is absent only for an
  empty catalog.
\<close>

theorem findComponentKey_blank_query:
  assumes "q \<noteq> []" and "normalizeQuery q = []" and "\<not> hasOwn comps []"
  shows "findComponentKey comps q =
     (case find (hasOwn comps)
             [str ''button'', str ''button (html)'', str ''boton'', str ''boton (html)'',
              str ''botones'', str ''botones (html)''] of
        Some k \<Rightarrow> Some k
      | None \<Rightarrow> (case Object_keys comps of [] \<Rightarrow> None | k # ks \<Rightarrow> Some k))"
proof -
  have cn: "normalizeComponentName q = Some (str ''button'')"
    using assms(1,2) by (simp add: normalizeComponentName_def aliasTouches_blank)
  have al: "aliasLoop comps (Some (str ''button'')) [] COMPONENT_ALIASES =
      find (hasOwn comps)
        [str ''button'', str ''button (html)'', str ''boton'', str ''boton (html)'',
         str ''botones'', str ''botones (html)'']"
    unfolding aliasLoop_single [OF isMatch_blank] snd_conv aliasHit_button_group ..
  show ?thesis
    unfolding findComponentKey_def assms(2) cn Let_def al fuzzyMatch_Nil prop_truthy_Nil
    using assms(1,3) by simp
qed

text \<open>
  Witness for C10: the query is one combining acute accent (code unit 769); the catalog
  has the keys \<open>modal\<close>, \<open>tabs\<close> and the array index \<open>7\<close>, which \<open>Object.keys\<close> lists
  first.
\<close>

theorem findComponentKey_blank_query_witness:
  "[769] \<noteq> [] \<and> normalizeQuery [769] = []
   \<and> \<not> hasOwn [(str ''modal'', sample_component (str ''Modal'')),
                (str ''tabs'', sample_component (str ''Tabs'')),
                (str ''7'', sample_component (str ''7''))] []
   \<and> findComponentKey [(str ''modal'', sample_component (str ''Modal'')),
                        (str ''tabs'', sample_component (str ''Tabs'')),
                        (str ''7'', sample_component (str ''7''))] [769]
       = Some (str ''7'')"
  (is "_ \<and> _ \<and> \<not> hasOwn ?cat [] \<and> _")
proof -
  have h1: "[769] \<noteq> ([] :: jsstring)"
    by simp
  have h2: "normalizeQuery [769] = []"
    by code_simp
  have h3: "\<not> hasOwn ?cat []"
    by code_simp
  have r: "(case find (hasOwn ?cat)
               [str ''button'', str ''button (html)'', str ''boton'', str ''boton (html)'',
                str ''botones'', str ''botones (html)''] of
              Some k \<Rightarrow> Some k
            | None \<Rightarrow> (case Object_keys ?cat of [] \<Rightarrow> None | k # ks \<Rightarrow> Some k))
            = Some (str ''7'')"
    by code_simp
  show ?thesis
    using h1 h2 h3 findComponentKey_blank_query [OF h1 h2 h3] r by simp
qed

text \<open>
  Counterexample to C10 as stated: the catalog has the keys \<open>modal\<close> and \<open>button\<close>, in
  this order, and the query is one space. The resolver returns \<open>button\<close>, found by the
  alias loop, and not \<open>modal\<close>, the first key of the component map, which the substring
  scan would give.
\<close>

theorem findComponentKey_blank_query_counterexample:
  "str '' '' \<noteq> [] \<and> normalizeQuery (str '' '') = []
   \<and> Object_keys [(str ''modal'', sample_component (str ''Modal'')),
                  (str ''button'', sample_component (str ''Button''))]
       = [str ''modal'', str ''button'']
   \<and> fuzzyMatch [(str ''modal'', sample_component (str ''Modal'')),
                  (str ''button'', sample_component (str ''Button''))] []
       = Some (str ''modal'')
   \<and> findComponentKey [(str ''modal'', sample_component (str ''Modal'')),
                        (str ''button'', sample_component (str ''Button''))] (str '' '')
       = Some (str ''button'')"
  by code_simp

section \<open>Properties of the snippet extractor\<close>

lemma headingTitle_startsWith:
  assumes "headingTitle line = Some t"
  shows "startsWith line (str ''###'')"
proof (rule ccontr)
  assume "\<not> startsWith line (str ''###'')"
  then have "headingTitle line = None"
    by (simp add: headingTitle_def matchAnchoredHeading_def matchHeading_def)
  then show False
    using assms by simp
qed

lemma hash_not_fence:
  assumes "startsWith line (str ''###'')"
  shows "\<not> opensHtml line" and "\<not> opensScript line" and "line \<noteq> str ''```''"
  using assms
  by (cases line; simp add: opensHtml_def opensScript_def str_def)+

lemma fence_not_heading:
  assumes "startsWith line (str ''```'')"
  shows "headingTitle line = None"
proof (cases "headingTitle line")
  case None
  then show ?thesis .
next
  case (Some t)
  then have "startsWith line (str ''###'')"
    by (rule headingTitle_startsWith)
  then show ?thesis
    using assms by (cases line) (simp_all add: str_def)
qed

lemma startsWith_append: "startsWith s (p @ q) \<Longrightarrow> startsWith s p"
  by (induction s p rule: startsWith.induct) simp_all

lemma opensHtml_fence: "opensHtml line \<Longrightarrow> startsWith line (str ''```'')"
  using startsWith_append [of line "str ''```''" "str ''html''"]
  by (simp add: opensHtml_def str_def)

text \<open>One step of the loop, by the kind of the line.\<close>

lemma prose_step:
  assumes "proseLine line" and "\<not> inCodeBlock st"
  shows "lineStep st line = st"
  using assms
  by (simp add: proseLine_def opensHtml_def opensScript_def lineStep_def headingStep_def
      fenceStep_def)

lemma prose_run:
  assumes "list_all proseLine ls" and "\<not> inCodeBlock st"
  shows "foldl lineStep st ls = st"
  using assms by (induction ls) (simp_all add: prose_step)

lemma code_step:
  assumes "codeLine line" and "inCodeBlock st"
  shows "lineStep st line = st\<lparr>codeBuffer := codeBuffer st @ [line]\<rparr>"
  using assms
  by (simp add: codeLine_def proseLine_def opensHtml_def opensScript_def lineStep_def
      headingStep_def fenceStep_def)

lemma code_run:
  assumes "list_all codeLine ls" and "inCodeBlock st"
  shows "foldl lineStep st ls = st\<lparr>codeBuffer := codeBuffer st @ ls\<rparr>"
  using assms
proof (induction ls arbitrary: st)
  case Nil
  then show ?case by simp
next
  case (Cons l ls)
  have "foldl lineStep (st\<lparr>codeBuffer := codeBuffer st @ [l]\<rparr>) ls =
          (st\<lparr>codeBuffer := codeBuffer st @ [l]\<rparr>)\<lparr>codeBuffer :=
             codeBuffer (st\<lparr>codeBuffer := codeBuffer st @ [l]\<rparr>) @ ls\<rparr>"
    using Cons.prems by (intro Cons.IH) simp_all
  then show ?case
    using Cons.prems by (simp add: code_step)
qed

lemma heading_step:
  assumes "headingTitle line = Some t" and "\<not> inCodeBlock st"
  shows "lineStep st line =
     st\<lparr>examples := flushExample st,
        currentExample := Some \<lparr>title = t, html = None, nunjucks = None, ex_description = []\<rparr>\<rparr>"
proof -
  have s: "startsWith line (str ''###'')"
    using assms(1) by (rule headingTitle_startsWith)
  show ?thesis
    using assms hash_not_fence [OF s]
    by (simp add: lineStep_def headingStep_def fenceStep_def opensHtml_def opensScript_def)
qed

lemma open_step:
  assumes "opensHtml line"
  shows "lineStep st line =
     st\<lparr>inCodeBlock := True, codeBlockType := Some HtmlBlock, codeBuffer := []\<rparr>"
  using assms fence_not_heading [OF opensHtml_fence [OF assms]]
  by (simp add: lineStep_def headingStep_def fenceStep_def opensHtml_def)

lemma fence_line:
  "headingTitle (str ''```'') = None" "\<not> opensHtml (str ''```'')" "\<not> opensScript (str ''```'')"
  by code_simp+

lemma close_step:
  assumes "inCodeBlock st" and "codeBlockType st = Some HtmlBlock"
    and "currentExample st = Some ex"
  shows "lineStep st (str ''```'') =
     st\<lparr>currentExample := Some (ex\<lparr>html := Some (trim (join [10] (codeBuffer st)))\<rparr>),
        inCodeBlock := False, codeBlockType := None, codeBuffer := []\<rparr>"
  using assms fence_line
  by (simp add: lineStep_def headingStep_def fenceStep_def commitCode_def opensHtml_def
      opensScript_def)

text \<open>
  The state after a section: a heading, prose, one markup block, prose; and after a
  heading with prose only.
\<close>

lemma section_with_code:
  assumes "headingTitle h = Some t" and "list_all proseLine mid" and "opensHtml opener"
    and "list_all codeLine code" and "list_all proseLine post" and "\<not> inCodeBlock st"
  shows "foldl lineStep st ([h] @ mid @ [opener] @ code @ [str ''```''] @ post) =
     \<lparr>examples = flushExample st,
      currentExample = Some \<lparr>title = t, html = Some (trim (join [10] code)), nunjucks = None,
                              ex_description = []\<rparr>,
      inCodeBlock = False, codeBlockType = None, codeBuffer = []\<rparr>"
proof -
  let ?s1 = "st\<lparr>examples := flushExample st,
        currentExample := Some \<lparr>title = t, html = None, nunjucks = None, ex_description = []\<rparr>\<rparr>"
  let ?s2 = "?s1\<lparr>inCodeBlock := True, codeBlockType := Some HtmlBlock, codeBuffer := []\<rparr>"
  let ?s3 = "?s2\<lparr>codeBuffer := code\<rparr>"
  let ?s4 = "\<lparr>examples = flushExample st,
      currentExample = Some \<lparr>title = t, html = Some (trim (join [10] code)), nunjucks = None,
                              ex_description = []\<rparr>,
      inCodeBlock = False, codeBlockType = None, codeBuffer = []\<rparr>"
  have a: "lineStep st h = ?s1"
    using assms(1,6) by (rule heading_step)
  have b: "foldl lineStep ?s1 mid = ?s1"
    using assms(2,6) by (intro prose_run) simp_all
  have c: "lineStep ?s1 opener = ?s2"
    using assms(3) by (rule open_step)
  have d: "foldl lineStep ?s2 code = ?s3"
    using code_run [OF assms(4), of ?s2] by simp
  have e: "lineStep ?s3 (str ''```'') = ?s4"
    using close_step [of ?s3 "\<lparr>title = t, html = None, nunjucks = None, ex_description = []\<rparr>"]
    by simp
  have f: "foldl lineStep ?s4 post = ?s4"
    using assms(5) by (intro prose_run) simp_all
  show ?thesis
    by (simp only: foldl_append foldl.simps a b c d e f)
qed

lemma section_without_code:
  assumes "headingTitle h = Some t" and "list_all proseLine mid" and "\<not> inCodeBlock st"
  shows "foldl lineStep st ([h] @ mid) =
     st\<lparr>examples := flushExample st,
        currentExample := Some \<lparr>title = t, html = None, nunjucks = None, ex_description = []\<rparr>\<rparr>"
proof -
  let ?s1 = "st\<lparr>examples := flushExample st,
        currentExample := Some \<lparr>title = t, html = None, nunjucks = None, ex_description = []\<rparr>\<rparr>"
  have a: "lineStep st h = ?s1"
    using assms(1,3) by (rule heading_step)
  have b: "foldl lineStep ?s1 mid = ?s1"
    using assms(2,3) by (intro prose_run) simp_all
  show ?thesis
    by (simp only: foldl_append foldl.simps a b)
qed

text \<open>
  Claim C6, as the code has it. The lines of the page are: prose, a level-3 heading,
  prose, one markup block (an opening fence, code lines, and the closing fence, a line
  of exactly three backquotes), prose, and the same for a second heading. When the
  trimmed code of each block is not empty, the extractor returns exactly the two
  example blocks, in the order of the page, each with the trimmed code of its own block
  and no script code. A heading with only prose under it is not emitted: the page
  without the first block gives the second example alone, the page without the second
  block the first alone.
\<close>

theorem parseCodeBlocks_two_headings:
  assumes "list_all proseLine pre"
    and "headingTitle h1 = Some t1" and "list_all proseLine mid1" and "opensHtml o1"
    and "list_all codeLine code1" and "list_all proseLine post1"
    and "headingTitle h2 = Some t2" and "list_all proseLine mid2" and "opensHtml o2"
    and "list_all codeLine code2" and "list_all proseLine post2"
    and "trim (join [10] code1) \<noteq> []" and "trim (join [10] code2) \<noteq> []"
    and "split_lines both =
           pre @ ([h1] @ mid1 @ [o1] @ code1 @ [str ''```''] @ post1)
               @ ([h2] @ mid2 @ [o2] @ code2 @ [str ''```''] @ post2)"
    and "split_lines second_only =
           pre @ ([h1] @ mid1) @ ([h2] @ mid2 @ [o2] @ code2 @ [str ''```''] @ post2)"
    and "split_lines first_only =
           pre @ ([h1] @ mid1 @ [o1] @ code1 @ [str ''```''] @ post1) @ ([h2] @ mid2)"
  shows "parseCodeBlocks both =
           [\<lparr>title = t1, html = Some (trim (join [10] code1)), nunjucks = None, ex_description = []\<rparr>,
            \<lparr>title = t2, html = Some (trim (join [10] code2)), nunjucks = None, ex_description = []\<rparr>]
       \<and> parseCodeBlocks second_only =
           [\<lparr>title = t2, html = Some (trim (join [10] code2)), nunjucks = None, ex_description = []\<rparr>]
       \<and> parseCodeBlocks first_only =
           [\<lparr>title = t1, html = Some (trim (join [10] code1)), nunjucks = None, ex_description = []\<rparr>]"
proof -
  let ?i = initial_extractor_state
  let ?e1 = "\<lparr>title = t1, html = Some (trim (join [10] code1)), nunjucks = None,
              ex_description = []\<rparr>"
  let ?e2 = "\<lparr>title = t2, html = Some (trim (join [10] code2)), nunjucks = None,
              ex_description = []\<rparr>"
  define sec1 where "sec1 = [h1] @ mid1 @ [o1] @ code1 @ [str ''```''] @ post1"
  define sec2 where "sec2 = [h2] @ mid2 @ [o2] @ code2 @ [str ''```''] @ post2"
  define bare1 where "bare1 = [h1] @ mid1"
  define bare2 where "bare2 = [h2] @ mid2"
  define sa where "sa = foldl lineStep ?i sec1"
  define sb where "sb = foldl lineStep ?i bare1"
  have i0: "\<not> inCodeBlock ?i"
    by (simp add: initial_extractor_state_def)
  have fi: "flushExample ?i = []"
    by (simp add: flushExample_def initial_extractor_state_def)
  have p: "foldl lineStep ?i pre = ?i"
    using assms(1) i0 by (rule prose_run)
  have a: "sa = \<lparr>examples = [], currentExample = Some ?e1,
      inCodeBlock = False, codeBlockType = None, codeBuffer = []\<rparr>"
    unfolding sa_def sec1_def using section_with_code [OF assms(2-6) i0] fi by simp
  have b: "sb = ?i\<lparr>examples := [],
        currentExample := Some \<lparr>title = t1, html = None, nunjucks = None, ex_description = []\<rparr>\<rparr>"
    unfolding sb_def bare1_def using section_without_code [OF assms(2,3) i0] fi by simp
  have na: "\<not> inCodeBlock sa"
    by (simp add: a)
  have nb: "\<not> inCodeBlock sb"
    by (simp add: b i0)
  have fa: "flushExample sa = [?e1]"
    using assms(12) by (simp add: a flushExample_def hasCode_def truthyCode_def)
  have fb: "flushExample sb = []"
    by (simp add: b flushExample_def hasCode_def truthyCode_def)
  have aa: "foldl lineStep sa sec2 =
     \<lparr>examples = [?e1], currentExample = Some ?e2,
      inCodeBlock = False, codeBlockType = None, codeBuffer = []\<rparr>"
    unfolding sec2_def using section_with_code [OF assms(7-11) na] fa by simp
  have ba: "foldl lineStep sb sec2 =
     \<lparr>examples = [], currentExample = Some ?e2,
      inCodeBlock = False, codeBlockType = None, codeBuffer = []\<rparr>"
    unfolding sec2_def using section_with_code [OF assms(7-11) nb] fb by simp
  have ab: "foldl lineStep sa bare2 =
     sa\<lparr>examples := [?e1],
        currentExample := Some \<lparr>title = t2, html = None, nunjucks = None, ex_description = []\<rparr>\<rparr>"
    unfolding bare2_def using section_without_code [OF assms(7,8) na] fa by simp
  have "parseCodeBlocks both = flushExample (foldl lineStep sa sec2)"
    unfolding parseCodeBlocks_def assms(14) sa_def sec1_def sec2_def
    by (simp only: foldl_append p)
  then have r1: "parseCodeBlocks both = [?e1, ?e2]"
    unfolding aa using assms(13) by (simp add: flushExample_def hasCode_def truthyCode_def)
  have "parseCodeBlocks second_only = flushExample (foldl lineStep sb sec2)"
    unfolding parseCodeBlocks_def assms(15) sb_def bare1_def sec2_def
    by (simp only: foldl_append p)
  then have r2: "parseCodeBlocks second_only = [?e2]"
    unfolding ba using assms(13) by (simp add: flushExample_def hasCode_def truthyCode_def)
  have "parseCodeBlocks first_only = flushExample (foldl lineStep sa bare2)"
    unfolding parseCodeBlocks_def assms(16) sa_def sec1_def bare2_def
    by (simp only: foldl_append p)
  then have r3: "parseCodeBlocks first_only = [?e1]"
    unfolding ab by (simp add: flushExample_def hasCode_def truthyCode_def)
  show ?thesis
    using r1 r2 r3 by simp
qed

text \<open>
  Witness for C6: the page of the specification, with the headings \<open>Primario\<close> and
  \<open>Deshabilitado\<close> (the second with the anchor marker), and the same page without the
  first and without the second block.
\<close>

theorem parseCodeBlocks_two_headings_witness:
  "list_all proseLine [str ''# Botones'']
   \<and> headingTitle (str ''### Primario'') = Some (str ''Primario'')
   \<and> opensHtml (str ''```html'')
   \<and> list_all codeLine [str ''<button>A</button>'']
   \<and> list_all proseLine [[]]
   \<and> headingTitle (str ''### Deshabilitado [#]'') = Some (str ''Deshabilitado'')
   \<and> list_all proseLine [str ''Estado deshabilitado'']
   \<and> list_all codeLine [str ''<button disabled>'', str ''B</button>'']
   \<and> trim (join [10] [str ''<button>A</button>'']) \<noteq> []
   \<and> trim (join [10] [str ''<button disabled>'', str ''B</button>'']) \<noteq> []
   \<and> parseCodeBlocks sample_page =
        [\<lparr>title = str ''Primario'', html = Some (str ''<button>A</button>''), nunjucks = None,
          ex_description = []\<rparr>,
         \<lparr>title = str ''Deshabilitado'',
          html = Some (str ''<button disabled>\<newline>B</button>''), nunjucks = None,
          ex_description = []\<rparr>]
   \<and> parseCodeBlocks sample_page_second_only =
        [\<lparr>title = str ''Deshabilitado'',
          html = Some (str ''<button disabled>\<newline>B</button>''), nunjucks = None,
          ex_description = []\<rparr>]
   \<and> parseCodeBlocks sample_page_first_only =
        [\<lparr>title = str ''Primario'', html = Some (str ''<button>A</button>''), nunjucks = None,
          ex_description = []\<rparr>]"
proof -
  have pre: "list_all proseLine [str ''# Botones'']"
    by code_simp
  have h1: "headingTitle (str ''### Primario'') = Some (str ''Primario'')"
    by code_simp
  have m1: "list_all proseLine []"
    by simp
  have o: "opensHtml (str ''```html'')"
    by code_simp
  have c1: "list_all codeLine [str ''<button>A</button>'']"
    by code_simp
  have p1: "list_all proseLine [[]]"
    by code_simp
  have h2: "headingTitle (str ''### Deshabilitado [#]'') = Some (str ''Deshabilitado'')"
    by code_simp
  have m2: "list_all proseLine [str ''Estado deshabilitado'']"
    by code_simp
  have c2: "list_all codeLine [str ''<button disabled>'', str ''B</button>'']"
    by code_simp
  have n1: "trim (join [10] [str ''<button>A</button>'']) \<noteq> []"
    by code_simp
  have n2: "trim (join [10] [str ''<button disabled>'', str ''B</button>'']) \<noteq> []"
    by code_simp
  have s1: "split_lines sample_page =
      [str ''# Botones'']
      @ ([str ''### Primario''] @ [] @ [str ''```html''] @ [str ''<button>A</button>'']
         @ [str ''```''] @ [[]])
      @ ([str ''### Deshabilitado [#]''] @ [str ''Estado deshabilitado''] @ [str ''```html'']
         @ [str ''<button disabled>'', str ''B</button>''] @ [str ''```''] @ [[]])"
    by code_simp
  have s2: "split_lines sample_page_second_only =
      [str ''# Botones'']
      @ ([str ''### Primario''] @ [])
      @ ([str ''### Deshabilitado [#]''] @ [str ''Estado deshabilitado''] @ [str ''```html'']
         @ [str ''<button disabled>'', str ''B</button>''] @ [str ''```''] @ [[]])"
    by code_simp
  have s3: "split_lines sample_page_first_only =
      [str ''# Botones'']
      @ ([str ''### Primario''] @ [] @ [str ''```html''] @ [str ''<button>A</button>'']
         @ [str ''```''] @ [[]])
      @ ([str ''### Deshabilitado [#]''] @ [str ''Estado deshabilitado''])"
    by code_simp
  have t1: "trim (join [10] [str ''<button>A</button>'']) = str ''<button>A</button>''"
    by code_simp
  have t2: "trim (join [10] [str ''<button disabled>'', str ''B</button>'']) =
      str ''<button disabled>\<newline>B</button>''"
    by code_simp
  show ?thesis
    using pre h1 o c1 p1 h2 m2 c2 n1 n2
      parseCodeBlocks_two_headings [OF pre h1 m1 o c1 p1 h2 m2 o c2 p1 n1 n2 s1 s2 s3]
    unfolding t1 t2 by simp
qed

text \<open>
  Counterexample to C6 as stated: two level-3 headings, each followed by exactly one
  fenced markup block, the first block empty. The extractor stores the empty string as
  the code of \<open>A\<close>, the empty string is falsy, and the block of \<open>A\<close> is dropped: one
  example block is returned, not two.
\<close>

theorem parseCodeBlocks_two_headings_counterexample:
  "split_lines (str ''### A\<newline>```html\<newline>```\<newline>### B\<newline>```html\<newline><p>\<newline>```'') =
     [str ''### A'', str ''```html'', str ''```'', str ''### B'', str ''```html'', str ''<p>'',
      str ''```'']
   \<and> headingTitle (str ''### A'') = Some (str ''A'')
   \<and> headingTitle (str ''### B'') = Some (str ''B'')
   \<and> parseCodeBlocks (str ''### A\<newline>```html\<newline>```\<newline>### B\<newline>```html\<newline><p>\<newline>```'') =
     [\<lparr>title = str ''B'', html = Some (str ''<p>''), nunjucks = None, ex_description = []\<rparr>]"
  by code_simp

text \<open>
  Claim C7. When no example block has a normalized title that contains the normalized
  variant filter or is contained in it, the filter is dropped: the formatter works on
  the full list of examples and its output is the output without a filter.
\<close>

theorem formatCodeOutput_variant_fallback:
  assumes "\<forall>ex \<in> set exs. \<not> js_includes (normalizeTitle (title ex)) (normalizeTitle v)
                            \<and> \<not> js_includes (normalizeTitle v) (normalizeTitle (title ex))"
  shows "selectVariant exs (Some v) = exs
         \<and> formatCodeOutput exs format (Some v) = formatCodeOutput exs format None"
proof -
  have "filter (variantMatches (normalizeTitle v)) exs = []"
    using assms by (auto simp add: filter_empty_conv variantMatches_def)
  then have s: "selectVariant exs (Some v) = exs"
    by (simp add: selectVariant_def)
  have "selectVariant exs None = exs"
    by (simp add: selectVariant_def)
  then show ?thesis
    using s by (simp add: formatCodeOutput_def)
qed

text \<open>
  Witness for C7: the two examples \<open>Primario\<close> and \<open>Deshabilitado\<close>, filtered by the
  variant \<open>Secundario\<close>; both blocks are in the output.
\<close>

theorem formatCodeOutput_variant_fallback_witness:
  "list_all (\<lambda>ex. \<not> js_includes (normalizeTitle (title ex)) (normalizeTitle (str ''Secundario''))
                  \<and> \<not> js_includes (normalizeTitle (str ''Secundario'')) (normalizeTitle (title ex)))
     sample_examples
   \<and> selectVariant sample_examples (Some (str ''Secundario'')) = sample_examples
   \<and> formatCodeOutput sample_examples (str ''html'') (Some (str ''Secundario'')) =
       str ''### Primario\<newline>```html\<newline><button>A</button>\<newline>```\<newline>\<newline>### Deshabilitado\<newline>```html\<newline><button disabled>B</button>\<newline>```''"
proof -
  have l: "list_all (\<lambda>ex. \<not> js_includes (normalizeTitle (title ex)) (normalizeTitle (str ''Secundario''))
                  \<and> \<not> js_includes (normalizeTitle (str ''Secundario'')) (normalizeTitle (title ex)))
     sample_examples"
    by code_simp
  then have h: "\<forall>ex \<in> set sample_examples.
       \<not> js_includes (normalizeTitle (title ex)) (normalizeTitle (str ''Secundario''))
       \<and> \<not> js_includes (normalizeTitle (str ''Secundario'')) (normalizeTitle (title ex))"
    by (simp add: list_all_iff)
  have v: "formatCodeOutput sample_examples (str ''html'') None =
       str ''### Primario\<newline>```html\<newline><button>A</button>\<newline>```\<newline>\<newline>### Deshabilitado\<newline>```html\<newline><button disabled>B</button>\<newline>```''"
    by code_simp
  show ?thesis
    using l v formatCodeOutput_variant_fallback [OF h, of "str ''html''"] by simp
qed

section \<open>Properties of the index parser\<close>

text \<open>Blank documents and lines without a link.\<close>

lemma trim_blank:
  assumes "list_all isWhiteSpace s"
  shows "trim s = []"
proof -
  have d: "dropWhile isWhiteSpace s = []"
    using assms by (induction s) simp_all
  show ?thesis
    unfolding trim_def d by simp
qed

lemma split_lines_nonempty: "split_lines s \<noteq> []"
  by (induction s) (auto split: list.splits)

lemma split_lines_blank:
  "list_all isWhiteSpace s \<Longrightarrow> list_all (list_all isWhiteSpace) (split_lines s)"
  by (induction s) (auto split: list.splits)

lemma parseLine_blank: "list_all isWhiteSpace line \<Longrightarrow> parseLine st line = Inr st"
  by (simp add: parseLine_def trim_blank)

lemma parseLines_blank:
  "list_all (list_all isWhiteSpace) ls \<Longrightarrow> parseLines st ls = Inr st"
  by (induction ls) (simp_all add: parseLine_blank)

lemma parseLlmsTxt_blank:
  assumes "list_all isWhiteSpace content"
  shows "parseLlmsTxt content = Inr \<lparr>categories = [], components = []\<rparr>"
  using parseLines_blank [OF split_lines_blank [OF assms], of initial_parse_state]
  by (simp add: parseLlmsTxt_def initial_parse_state_def)

lemma parseLine_no_link:
  assumes "parseMarkdownLink (bulletText (trim line)) = None" and "headingName line = None"
  shows "parseLine st line = Inr st"
  using assms by (simp add: parseLine_def headingName_def Let_def split: if_splits)

text \<open>
  The parser throws only in \<open>pushToCategory\<close>, and only when the current category is
  a property name of \<open>Object.prototype\<close>; a document none of whose headings is such a
  name is parsed to the end.
\<close>

lemma pushToCategory_components:
  "pushToCategory (st\<lparr>ps_components := X\<rparr>) cpt =
     (case pushToCategory st cpt of Inl e \<Rightarrow> Inl e | Inr s \<Rightarrow> Inr (s\<lparr>ps_components := X\<rparr>))"
  by (simp add: pushToCategory_def split: option.splits)

lemma pushToCategory_throws:
  assumes "pushToCategory st cpt = Inl e"
  shows "\<exists>cc. currentCategory st = Some cc \<and> cc \<in> set Object_prototype_names"
  using assms
  by (auto simp add: pushToCategory_def prop_truthy_def hasOwn_def
      split: option.splits if_splits)

lemma addComponent_throws:
  assumes "addComponent st cpt = Inl e"
  shows "\<exists>cc. currentCategory st = Some cc \<and> cc \<in> set Object_prototype_names"
proof -
  have "pushToCategory st cpt = Inl e"
    using assms
    by (cases "pushToCategory st cpt")
       (auto simp add: addComponent_def Let_def pushToCategory_components split: if_splits)
  then show ?thesis
    by (rule pushToCategory_throws)
qed

lemma pushToCategory_current:
  "pushToCategory st cpt = Inr st' \<Longrightarrow> currentCategory st' = currentCategory st"
  by (auto simp add: pushToCategory_def split: option.splits if_splits)

lemma addComponent_current:
  assumes "addComponent st cpt = Inr st'"
  shows "currentCategory st' = currentCategory st"
  using assms
  by (cases "pushToCategory st cpt")
     (auto simp add: addComponent_def Let_def pushToCategory_components
        dest: pushToCategory_current split: if_splits)

lemma enterCategory_current: "currentCategory (enterCategory wording cc st) = Some cc"
  by (simp add: enterCategory_def)

lemma parseLine_current:
  assumes "parseLine st line = Inr st'"
  shows "currentCategory st' =
           (case headingName line of None \<Rightarrow> currentCategory st | Some n \<Rightarrow> Some n)"
  using assms
  by (auto simp add: parseLine_def headingName_def Let_def enterCategory_current
      dest: addComponent_current split: if_splits option.splits)

lemma parseLine_throws:
  assumes "parseLine st line = Inl e"
  shows "\<exists>cc. currentCategory st = Some cc \<and> cc \<in> set Object_prototype_names"
  using assms
  by (auto simp add: parseLine_def Let_def dest: addComponent_throws
      split: if_splits option.splits)

lemma parseLines_returns:
  assumes "list_all ownedHeading ls"
    and "\<forall>cc. currentCategory st = Some cc \<longrightarrow> cc \<notin> set Object_prototype_names"
  shows "\<exists>st'. parseLines st ls = Inr st'"
  using assms
proof (induction ls arbitrary: st)
  case Nil
  then show ?case by simp
next
  case (Cons l ls)
  obtain st1 where s: "parseLine st l = Inr st1"
    using Cons.prems(2) parseLine_throws [of st l] by (cases "parseLine st l") auto
  have "\<forall>cc. currentCategory st1 = Some cc \<longrightarrow> cc \<notin> set Object_prototype_names"
    using Cons.prems parseLine_current [OF s]
    by (auto simp add: ownedHeading_def split: option.splits)
  then have "\<exists>st'. parseLines st1 ls = Inr st'"
    using Cons.prems(1) by (intro Cons.IH) simp_all
  then show ?case
    using s by simp
qed

lemma parseLlmsTxt_returns:
  assumes "list_all ownedHeading (split_lines content)"
  shows "\<exists>cat. parseLlmsTxt content = Inr cat"
proof -
  obtain st where "parseLines initial_parse_state (split_lines content) = Inr st"
    using parseLines_returns [OF assms, of initial_parse_state]
    by (auto simp add: initial_parse_state_def)
  then show ?thesis
    by (simp add: parseLlmsTxt_def)
qed

text \<open>
  Claim C3 fails on the code. A heading named like a property of \<open>Object.prototype\<close>
  is never registered (\<open>categories[name]\<close> is already truthy), and the first component
  link under it reads \<open>categories[name].components\<close>, which is \<open>undefined\<close>: the
  call of \<open>push\<close> throws a \<open>TypeError\<close> out of the parser, in the revised parser and
  in the one of src/server-desy.js alike. The rest of the claim holds: the functions
  are total, a blank document gives the empty catalog (\<open>parseLlmsTxt_blank\<close>), a line
  without a link is skipped (\<open>parseLine_no_link\<close>), and no other document makes the
  parser throw (\<open>parseLlmsTxt_returns\<close>).
\<close>

theorem parseLlmsTxt_inherited_category_throws:
  "parseLlmsTxt (str ''## constructor\<newline>- [A](https://x/componente-a)'') =
     Inl (TypeError (str ''Cannot read properties of undefined (reading 'push')''))
   \<and> sd_parseLlmsTxt (str ''## constructor\<newline>- [A](https://x/componente-a)'') =
     Inl (TypeError (str ''Cannot read properties of undefined (reading 'push')''))"
  by code_simp

text \<open>
  The revised parser keeps the first record of a key: a stored record is never
  replaced, a component whose key is free is stored, and every component is appended
  to the list of the current category.
\<close>

lemma map_of_obj_set: "map_of (obj_set ps k v) = (map_of ps)(k \<mapsto> v)"
  by (induction ps) (auto simp add: fun_eq_iff)

lemma obj_set_new: "\<not> hasOwn ps k \<Longrightarrow> obj_set ps k v = ps @ [(k, v)]"
  by (induction ps) (auto simp add: hasOwn_def split: if_splits)

lemma obj_set_keys: "hasOwn ps k \<Longrightarrow> map fst (obj_set ps k v) = map fst ps"
  by (induction ps) (auto simp add: hasOwn_def split: if_splits)

lemma hasOwn_iff: "hasOwn ps k \<longleftrightarrow> k \<in> fst ` set ps"
  by (simp add: hasOwn_def map_of_eq_None_iff)

lemma distinct_obj_set:
  "distinct (map fst ps) \<Longrightarrow> distinct (map fst (obj_set ps k v))"
  by (cases "hasOwn ps k") (simp_all add: obj_set_keys obj_set_new hasOwn_iff)

lemma hasOwn_obj_set: "hasOwn (obj_set ps k v) k' \<longleftrightarrow> k' = k \<or> hasOwn ps k'"
  by (simp add: hasOwn_def map_of_obj_set)

lemma prop_truthy_obj_set: "prop_truthy ps k' \<Longrightarrow> prop_truthy (obj_set ps k v) k'"
  by (auto simp add: prop_truthy_def hasOwn_obj_set)

lemma pushToCategory_keeps_components:
  "pushToCategory st cpt = Inr st' \<Longrightarrow> ps_components st' = ps_components st"
  by (auto simp add: pushToCategory_def split: option.splits if_splits)

lemma addComponent_components:
  assumes "addComponent st cpt = Inr st'"
  shows "ps_components st' =
     (if prop_truthy (ps_components st) (toLowerCase (name cpt)) then ps_components st
      else ps_components st @ [(toLowerCase (name cpt), cpt)])"
  using assms
  by (cases "pushToCategory st cpt")
     (auto simp add: addComponent_def Let_def pushToCategory_components obj_set_new
        prop_truthy_def dest: pushToCategory_keeps_components split: if_splits)

lemma addComponent_keeps_first:
  assumes "addComponent st cpt = Inr st'" and "map_of (ps_components st) k = Some c"
  shows "map_of (ps_components st') k = Some c"
  using assms(2) unfolding addComponent_components [OF assms(1)]
  by (auto simp add: prop_truthy_def hasOwn_def map_add_Some_iff)

lemma parseLine_keeps_first:
  assumes "parseLine st line = Inr st'" and "map_of (ps_components st) k = Some c"
  shows "map_of (ps_components st') k = Some c"
  using assms
  by (auto simp add: parseLine_def Let_def enterCategory_def dest: addComponent_keeps_first
      split: if_splits option.splits)

lemma parseLines_keeps_first:
  assumes "parseLines st ls = Inr st'" and "map_of (ps_components st) k = Some c"
  shows "map_of (ps_components st') k = Some c"
  using assms
proof (induction ls arbitrary: st)
  case Nil
  then show ?case by simp
next
  case (Cons l ls)
  then obtain st1 where s: "parseLine st l = Inr st1" and r: "parseLines st1 ls = Inr st'"
    by (auto split: sum.splits)
  have "map_of (ps_components st1) k = Some c"
    using s Cons.prems(2) by (rule parseLine_keeps_first)
  then show ?case
    using r Cons.IH by blast
qed

lemma addComponent_appends:
  assumes "addComponent st cpt = Inr st'" and "currentCategory st = Some cc" and "cc \<noteq> []"
    and "map_of (ps_categories st) cc = Some e"
  shows "map_of (ps_categories st') cc = Some (e\<lparr>cat_components := cat_components e @ [cpt]\<rparr>)"
  using assms
  by (auto simp add: addComponent_def Let_def pushToCategory_def prop_truthy_def hasOwn_def
      map_of_obj_set split: if_splits)

lemma parseLlmsTxt_first_seen_wins:
  assumes "addComponent st first = Inr st1"
    and "\<not> prop_truthy (ps_components st) (toLowerCase (name first))"
    and "parseLines st1 between = Inr st2"
    and "toLowerCase (name later) = toLowerCase (name first)"
    and "currentCategory st2 = Some cc" and "cc \<noteq> []"
    and "map_of (ps_categories st2) cc = Some e"
    and "addComponent st2 later = Inr st3"
    and "parseLines st3 rest = Inr st4"
  shows "map_of (ps_components st4) (toLowerCase (name first)) = Some first
         \<and> map_of (ps_categories st3) cc
             = Some (e\<lparr>cat_components := cat_components e @ [later]\<rparr>)"
proof -
  have "map_of (ps_components st1) (toLowerCase (name first)) = Some first"
    unfolding addComponent_components [OF assms(1)] using assms(2)
    by (auto simp add: prop_truthy_def hasOwn_def map_add_def)
  then have "map_of (ps_components st2) (toLowerCase (name first)) = Some first"
    using assms(3) parseLines_keeps_first by blast
  then have "map_of (ps_components st3) (toLowerCase (name first)) = Some first"
    using assms(8) addComponent_keeps_first by blast
  then have a: "map_of (ps_components st4) (toLowerCase (name first)) = Some first"
    using assms(9) parseLines_keeps_first by blast
  have b: "map_of (ps_categories st3) cc
             = Some (e\<lparr>cat_components := cat_components e @ [later]\<rparr>)"
    using assms(8,5,6,7) by (rule addComponent_appends)
  show ?thesis
    using a b by simp
qed

text \<open>
  The link text of the pattern is never empty, so the revised parser never stores a
  component under the empty key.
\<close>

lemma linkAt_nonempty: "linkAt s = Some (label, u) \<Longrightarrow> label \<noteq> [] \<and> u \<noteq> []"
  by (auto simp add: linkAt_def Let_def split: list.splits if_splits)

lemma linkSearch_nonempty: "linkSearch s = Some (label, u) \<Longrightarrow> label \<noteq> [] \<and> u \<noteq> []"
  by (induction s) (auto dest: linkAt_nonempty split: option.splits)

lemma parseMarkdownLink_nonempty:
  "parseMarkdownLink s = Some (label, u) \<Longrightarrow> label \<noteq> [] \<and> u \<noteq> []"
  unfolding parseMarkdownLink_def by (rule linkSearch_nonempty)

lemma hasOwn_append: "hasOwn (ps @ [(k, v)]) k' \<longleftrightarrow> hasOwn ps k' \<or> k' = k"
  by (auto simp add: hasOwn_iff)

lemma parseLine_no_empty_key:
  assumes "parseLine st line = Inr st'" and "\<not> hasOwn (ps_components st) []"
  shows "\<not> hasOwn (ps_components st') []"
proof -
  have a: "\<not> hasOwn (ps_components st') []"
    if "addComponent st (makeComponent (currentCategory st) label u) = Inr st'"
      and "parseMarkdownLink s = Some (label, u)" for label u s
    unfolding addComponent_components [OF that(1)]
    using assms(2) parseMarkdownLink_nonempty [OF that(2)]
    by (simp add: hasOwn_append makeComponent_def Let_def toLowerCase_def)
  show ?thesis
    using assms a
    by (auto simp add: parseLine_def Let_def enterCategory_def
        split: if_splits option.splits)
qed

lemma parseLines_no_empty_key:
  assumes "parseLines st ls = Inr st'" and "\<not> hasOwn (ps_components st) []"
  shows "\<not> hasOwn (ps_components st') []"
  using assms
proof (induction ls arbitrary: st)
  case Nil
  then show ?case by simp
next
  case (Cons l ls)
  then obtain st1 where s: "parseLine st l = Inr st1" and r: "parseLines st1 ls = Inr st'"
    by (auto split: sum.splits)
  have "\<not> hasOwn (ps_components st1) []"
    using s Cons.prems(2) by (rule parseLine_no_empty_key)
  then show ?case
    using r Cons.IH by blast
qed

lemma parseLlmsTxt_no_empty_key:
  assumes "parseLlmsTxt content = Inr cat"
  shows "\<not> hasOwn (components cat) []"
proof -
  obtain st where st: "parseLines initial_parse_state (split_lines content) = Inr st"
    and cat: "cat = \<lparr>categories = ps_categories st, components = ps_components st\<rparr>"
    using assms by (auto simp add: parseLlmsTxt_def split: sum.splits)
  have "\<not> hasOwn (ps_components initial_parse_state) []"
    by (simp add: initial_parse_state_def hasOwn_def)
  then have "\<not> hasOwn (ps_components st) []"
    using st parseLines_no_empty_key by blast
  then show ?thesis
    by (simp add: cat)
qed

text \<open>
  Claim C4 fails on the parser of src/server-desy.js, which stores the component
  without a guard: of two links with the key \<open>boton\<close> the component map keeps the
  second. (Both are in the list of their category, as the claim says.) The revised
  parser keeps the first: \<open>parseLlmsTxt_first_seen_wins\<close>, and the same document below.
\<close>

theorem sd_parseLlmsTxt_last_wins:
  "sd_parseLlmsTxt (str ''## Formularios\<newline>- [Boton](https://x/componente-boton)\<newline>- [BOTON](https://x/componente-boton-2)'') =
     Inr \<lparr>sd_cat_categories =
           [(str ''Formularios'',
             \<lparr>cat_name = str ''Formularios'',
              cat_description = str ''Documentaci'' @ [243] @ str ''n de formularios'',
              cat_components =
                [\<lparr>name = str ''Boton'', url = str ''https://x/componente-boton'',
                  description = str ''Boton'', category = str ''Formularios'', hasHtml = False,
                  hasNunjucks = False, hasAngular = False, hasProps = False\<rparr>,
                 \<lparr>name = str ''BOTON'', url = str ''https://x/componente-boton-2'',
                  description = str ''BOTON'', category = str ''Formularios'', hasHtml = False,
                  hasNunjucks = False, hasAngular = False, hasProps = False\<rparr>]\<rparr>)],
          sd_cat_components =
           [(str ''boton'',
             \<lparr>name = str ''BOTON'', url = str ''https://x/componente-boton-2'',
              description = str ''BOTON'', category = str ''Formularios'', hasHtml = False,
              hasNunjucks = False, hasAngular = False, hasProps = False\<rparr>)],
          sd_cat_prototype = None\<rparr>"
  by code_simp

lemma parseLlmsTxt_first_wins_example:
  "parseLlmsTxt (str ''## Formularios\<newline>- [Boton](https://x/componente-boton)\<newline>- [BOTON](https://x/componente-boton-2)'') =
     Inr \<lparr>categories =
           [(str ''Formularios'',
             \<lparr>cat_name = str ''Formularios'',
              cat_description = str ''Documentaci'' @ [243] @ str ''n de formularios'',
              cat_components =
                [\<lparr>name = str ''Boton'', url = str ''https://x/componente-boton'',
                  description = str ''Boton'', category = str ''Formularios'', hasHtml = False,
                  hasNunjucks = False, hasAngular = False, hasProps = False\<rparr>,
                 \<lparr>name = str ''BOTON'', url = str ''https://x/componente-boton-2'',
                  description = str ''BOTON'', category = str ''Formularios'', hasHtml = False,
                  hasNunjucks = False, hasAngular = False, hasProps = False\<rparr>]\<rparr>)],
          components =
           [(str ''boton'',
             \<lparr>name = str ''Boton'', url = str ''https://x/componente-boton'',
              description = str ''Boton'', category = str ''Formularios'', hasHtml = False,
              hasNunjucks = False, hasAngular = False, hasProps = False\<rparr>)]\<rparr>"
  by code_simp

text \<open>
  The guard of the revised parser reads \<open>components[key]\<close> through the prototype as
  well: a component whose lower-cased name is \<open>constructor\<close> finds the key taken and
  is never stored.
\<close>

lemma parseLlmsTxt_inherited_key_not_stored:
  "parseLlmsTxt (str ''- [Constructor](https://x/componente-c)'') =
     Inr \<lparr>categories = [], components = []\<rparr>"
  by code_simp

text \<open>
  The invariant of the revised parser's loop: the keys of both maps are distinct, every
  component in a category's list names that category, every stored component is
  \<open>General\<close> or stands in the list of the category it names, and a non-empty current
  category is a truthy property of \<open>categories\<close>.
\<close>

lemma initial_invariant: "parse_invariant initial_parse_state"
  by (simp add: parse_invariant_def initial_parse_state_def)

lemma enterCategory_invariant:
  assumes "parse_invariant st"
  shows "parse_invariant (enterCategory wording cc st)"
proof (cases "cc \<noteq> [] \<and> \<not> prop_truthy (ps_categories st) cc")
  case False
  then show ?thesis
    using assms by (auto simp add: enterCategory_def parse_invariant_def)
next
  case True
  let ?e = "\<lparr>cat_name = cc, cat_description = wording @ toLowerCase cc, cat_components = []\<rparr>"
  let ?cats = "obj_set (ps_categories st) cc ?e"
  have st': "enterCategory wording cc st = st\<lparr>currentCategory := Some cc, ps_categories := ?cats\<rparr>"
    using True by (simp add: enterCategory_def)
  have new: "map_of (ps_categories st) cc = None"
    using True by (simp add: prop_truthy_def hasOwn_def)
  have l: "linked ?cats c" if "linked (ps_categories st) c" for c
    using that new by (auto simp add: linked_def map_of_obj_set split: option.splits)
  have i1: "distinct (map fst ?cats)"
    using assms by (simp add: parse_invariant_def distinct_obj_set)
  have i2: "distinct (map fst (ps_components st))"
    using assms by (simp add: parse_invariant_def)
  have i3: "category c = n" if "map_of ?cats n = Some e" and "c \<in> set (cat_components e)" for n e c
  proof (cases "n = cc")
    case True
    then show ?thesis
      using that by (auto simp add: map_of_obj_set)
  next
    case False
    then have "map_of (ps_categories st) n = Some e"
      using that(1) by (simp add: map_of_obj_set)
    then show ?thesis
      using assms that(2) unfolding parse_invariant_def by blast
  qed
  have i4: "category c = str ''General'' \<or> linked ?cats c"
    if "map_of (ps_components st) k = Some c" for k c
  proof -
    have "category c = str ''General'' \<or> linked (ps_categories st) c"
      using assms that unfolding parse_invariant_def by blast
    then show ?thesis
      using l by blast
  qed
  have i5: "prop_truthy ?cats cc"
    by (simp add: prop_truthy_def hasOwn_obj_set)
  show ?thesis
    unfolding st' parse_invariant_def using i1 i2 i3 i4 i5 by auto
qed

lemma pushToCategory_invariant:
  assumes "parse_invariant st" and "pushToCategory st cpt = Inr st'"
    and "category cpt = categoryOrGeneral (currentCategory st)"
  shows "parse_invariant st' \<and> ps_components st' = ps_components st
         \<and> currentCategory st' = currentCategory st
         \<and> (category cpt = str ''General'' \<or> linked (ps_categories st') cpt)"
proof (cases "currentCategory st")
  case None
  then show ?thesis
    using assms by (simp add: pushToCategory_def categoryOrGeneral_def)
next
  case (Some cc)
  show ?thesis
  proof (cases "cc = []")
    case True
    then show ?thesis
      using assms Some by (simp add: pushToCategory_def categoryOrGeneral_def)
  next
    case False
    then have t: "prop_truthy (ps_categories st) cc"
      using assms(1) Some unfolding parse_invariant_def by blast
    then obtain e where e: "map_of (ps_categories st) cc = Some e"
      using assms(2) Some False by (auto simp add: pushToCategory_def split: option.splits)
    let ?e = "e\<lparr>cat_components := cat_components e @ [cpt]\<rparr>"
    let ?cats = "obj_set (ps_categories st) cc ?e"
    have st': "st' = st\<lparr>ps_categories := ?cats\<rparr>"
      using assms(2) Some False t e by (simp add: pushToCategory_def)
    have c: "category cpt = cc"
      using assms(3) Some False by (simp add: categoryOrGeneral_def)
    have l: "linked ?cats c" if "linked (ps_categories st) c" for c
      using that e by (auto simp add: linked_def map_of_obj_set split: option.splits)
    have i1: "distinct (map fst ?cats)"
      using assms(1) by (simp add: parse_invariant_def distinct_obj_set)
    have i2: "distinct (map fst (ps_components st))"
      using assms(1) by (simp add: parse_invariant_def)
    have i3: "category x = n" if "map_of ?cats n = Some e'" and "x \<in> set (cat_components e')"
      for n e' x
    proof (cases "n = cc")
      case True
      then have "e' = ?e"
        using that(1) by (simp add: map_of_obj_set)
      then have "x \<in> set (cat_components e) \<or> x = cpt"
        using that(2) by auto
      then show ?thesis
        using assms(1) e c True unfolding parse_invariant_def by blast
    next
      case False
      then have "map_of (ps_categories st) n = Some e'"
        using that(1) by (simp add: map_of_obj_set)
      then show ?thesis
        using assms(1) that(2) unfolding parse_invariant_def by blast
    qed
    have i4: "category x = str ''General'' \<or> linked ?cats x"
      if "map_of (ps_components st) k = Some x" for k x
    proof -
      have "category x = str ''General'' \<or> linked (ps_categories st) x"
        using assms(1) that unfolding parse_invariant_def by blast
      then show ?thesis
        using l by blast
    qed
    have i5: "prop_truthy ?cats cc'" if "currentCategory st = Some cc'" and "cc' \<noteq> []" for cc'
    proof -
      have "prop_truthy (ps_categories st) cc'"
        using assms(1) that unfolding parse_invariant_def by blast
      then show ?thesis
        by (rule prop_truthy_obj_set)
    qed
    have i6: "linked ?cats cpt"
      by (simp add: linked_def c map_of_obj_set)
    have "parse_invariant st'"
      unfolding st' parse_invariant_def using i1 i2 i3 i4 i5 by auto
    then show ?thesis
      using i6 by (simp add: st')
  qed
qed

lemma addComponent_invariant:
  assumes "parse_invariant st" and "addComponent st cpt = Inr st'"
    and "category cpt = categoryOrGeneral (currentCategory st)"
  shows "parse_invariant st'"
proof -
  let ?key = "toLowerCase (name cpt)"
  obtain st2 where p: "pushToCategory st cpt = Inr st2"
    using assms(2)
    by (cases "pushToCategory st cpt")
       (auto simp add: addComponent_def Let_def pushToCategory_components split: if_splits)
  have inv2: "parse_invariant st2" and same: "ps_components st2 = ps_components st"
    and l: "category cpt = str ''General'' \<or> linked (ps_categories st2) cpt"
    using pushToCategory_invariant [OF assms(1) p assms(3)] by simp_all
  show ?thesis
  proof (cases "prop_truthy (ps_components st) ?key")
    case True
    then have "st' = st2"
      using assms(2) p by (simp add: addComponent_def Let_def)
    then show ?thesis
      using inv2 by simp
  next
    case False
    then have st': "st' = st2\<lparr>ps_components := obj_set (ps_components st) ?key cpt\<rparr>"
      using assms(2) p by (simp add: addComponent_def Let_def pushToCategory_components)
    have i2: "distinct (map fst (obj_set (ps_components st) ?key cpt))"
      using assms(1) by (simp add: parse_invariant_def distinct_obj_set)
    have i4: "category c = str ''General'' \<or> linked (ps_categories st2) c"
      if "map_of (obj_set (ps_components st) ?key cpt) k = Some c" for k c
    proof (cases "k = ?key")
      case True
      then have "c = cpt"
        using that by (simp add: map_of_obj_set)
      then show ?thesis
        using l by simp
    next
      case False
      then have "map_of (ps_components st2) k = Some c"
        using that same by (simp add: map_of_obj_set)
      then show ?thesis
        using inv2 unfolding parse_invariant_def by blast
    qed
    show ?thesis
      unfolding st' parse_invariant_def using inv2 i2 i4
      by (auto simp add: parse_invariant_def)
  qed
qed

lemma makeComponent_category:
  "category (makeComponent cc text link_url) = categoryOrGeneral cc"
  by (simp add: makeComponent_def Let_def)

lemma parseLine_invariant:
  assumes "parse_invariant st" and "parseLine st line = Inr st'"
  shows "parse_invariant st'"
proof -
  have a: "parse_invariant st'"
    if "addComponent st (makeComponent (currentCategory st) label u) = Inr st'" for label u
    using assms(1) that makeComponent_category by (rule addComponent_invariant)
  show ?thesis
    using assms a
    by (auto simp add: parseLine_def Let_def enterCategory_invariant
        split: if_splits option.splits)
qed

lemma parseLines_invariant:
  assumes "parse_invariant st" and "parseLines st ls = Inr st'"
  shows "parse_invariant st'"
  using assms
proof (induction ls arbitrary: st)
  case Nil
  then show ?case by simp
next
  case (Cons l ls)
  then obtain st1 where s: "parseLine st l = Inr st1" and r: "parseLines st1 ls = Inr st'"
    by (auto split: sum.splits)
  have "parse_invariant st1"
    using Cons.prems(1) s by (rule parseLine_invariant)
  then show ?case
    using r by (rule Cons.IH)
qed

text \<open>
  In a catalog that the revised parser returns, every component of the component map
  whose category is not \<open>General\<close> stands in the list of exactly one category.
\<close>

lemma parseLlmsTxt_components_listed:
  assumes "parseLlmsTxt content = Inr cat" and "(k, c) \<in> set (components cat)"
    and "category c \<noteq> str ''General''"
  shows "\<exists>!n. \<exists>e. (n, e) \<in> set (categories cat) \<and> c \<in> set (cat_components e)"
proof -
  obtain st where st: "parseLines initial_parse_state (split_lines content) = Inr st"
    and cat: "cat = \<lparr>categories = ps_categories st, components = ps_components st\<rparr>"
    using assms(1) by (auto simp add: parseLlmsTxt_def split: sum.splits)
  have inv: "parse_invariant st"
    using initial_invariant st by (rule parseLines_invariant)
  have d1: "distinct (map fst (ps_categories st))" and d2: "distinct (map fst (ps_components st))"
    using inv by (simp_all add: parse_invariant_def)
  have "map_of (ps_components st) k = Some c"
    using assms(2) d2 by (simp add: cat)
  then have "linked (ps_categories st) c"
    using inv assms(3) unfolding parse_invariant_def by blast
  then obtain e where e: "map_of (ps_categories st) (category c) = Some e"
    and m: "c \<in> set (cat_components e)"
    by (auto simp add: linked_def split: option.splits)
  have ex: "(category c, e) \<in> set (categories cat) \<and> c \<in> set (cat_components e)"
    using e m by (simp add: cat map_of_SomeD)
  have un: "n = category c"
    if "(n, e') \<in> set (categories cat)" and "c \<in> set (cat_components e')" for n e'
  proof -
    have "map_of (ps_categories st) n = Some e'"
      using that(1) d1 by (simp add: cat)
    then show ?thesis
      using inv that(2) unfolding parse_invariant_def by blast
  qed
  show ?thesis
    using ex un by blast
qed

text \<open>
  Claim C8 fails on the parser of src/server-desy.js, where a level-3 heading sets the
  current category and registers nothing: the component below is stored in the
  component map with the category \<open>Botones\<close>, not \<open>General\<close>, and stands in no
  category's list, since there is no category at all. The revised parser registers
  the heading and satisfies the claim (\<open>parseLlmsTxt_components_listed\<close>).
\<close>

theorem sd_parseLlmsTxt_unlisted_component:
  "sd_parseLlmsTxt (str ''### Botones\<newline>- [Boton](https://x/componente-boton)'') =
     Inr \<lparr>sd_cat_categories = [],
          sd_cat_components =
           [(str ''boton'',
             \<lparr>name = str ''Boton'', url = str ''https://x/componente-boton'',
              description = str ''Boton'', category = str ''Botones'', hasHtml = False,
              hasNunjucks = False, hasAngular = False, hasProps = False\<rparr>)],
          sd_cat_prototype = None\<rparr>"
  by code_simp

section \<open>Properties of the catalog cache\<close>

text \<open>
  The call raises exactly when the slot is empty and the \<open>try\<close> block fails, which it
  does when the transport fails and also when the parser throws. With a catalog in the
  slot a failed refetch, forced or not, returns that catalog and leaves the slot as it
  was; \<open>refreshCache\<close> empties the slot first, so its failed fetch raises.
\<close>

lemma fetchLlmsTxt_raises_iff:
  "isl (fst (fetchLlmsTxt forceRefresh now fetched c)) \<longleftrightarrow>
     data c = None
     \<and> isl (case fetched of Inl e \<Rightarrow> Inl e | Inr content \<Rightarrow> parseLlmsTxt content)"
  by (cases "data c"; cases fetched)
     (auto simp add: fetchLlmsTxt_def Let_def split: sum.splits option.splits)

lemma fetchLlmsTxt_stale_fallback:
  assumes "data c = Some d"
  shows "fetchLlmsTxt forceRefresh now (Inl e) c = (Inr d, c)"
  using assms by (simp add: fetchLlmsTxt_def Let_def)

lemma fetchLlmsTxt_fresh:
  assumes "data c = Some d" and "now - timestamp c \<le> CACHE_DURATION_MS"
  shows "fetchLlmsTxt False now fetched c = (Inr d, c)"
  using assms by (simp add: fetchLlmsTxt_def Let_def)

lemma fetchLlmsTxt_refetch:
  assumes "forceRefresh \<or> now - timestamp c > CACHE_DURATION_MS \<or> data c = None"
    and "parseLlmsTxt content = Inr parsed"
  shows "fetchLlmsTxt forceRefresh now (Inr content) c =
           (Inr parsed, \<lparr>data = Some parsed, timestamp = now\<rparr>)"
  using assms by (auto simp add: fetchLlmsTxt_def Let_def split: option.splits)

lemma refreshCache_failure:
  "refreshCache now (Inl e) c =
     (Inl (Error (str ''Failed to fetch llms.txt: '' @ error_message e)),
      \<lparr>data = None, timestamp = 0\<rparr>)"
  by (simp add: refreshCache_def fetchLlmsTxt_def Let_def)

(* blank documents *)

text \<open>
  Claim C1 fails on the code where the parser does (claim C3): the fetch succeeds, the
  body makes the parser throw inside the \<open>try\<close> block, the slot is empty, and the call
  raises \<open>Failed to fetch llms.txt\<close> although the underlying fetch did not fail.
\<close>

theorem fetchLlmsTxt_parser_exception:
  "fetchLlmsTxt False 1700000000000
     (Inr (str ''## constructor\<newline>- [A](https://x/componente-a)'')) initial_cache =
   (Inl (Error (str ''Failed to fetch llms.txt: Cannot read properties of undefined (reading 'push')'')),
    initial_cache)"
  by code_simp

section \<open>Properties of the error payloads of getComponentCode\<close>

lemma Object_keys_length: "length (Object_keys comps) = length comps"
proof -
  have "length (filter isArrayIndex (map fst comps))
          + length (filter (\<lambda>k. \<not> isArrayIndex k) (map fst comps)) = length (map fst comps)"
    by (rule sum_length_filter_compl)
  then show ?thesis
    by (simp add: Object_keys_def Let_def)
qed

lemma Object_keys_set: "set (Object_keys comps) = fst ` set comps"
  by (auto simp add: Object_keys_def Let_def)

lemma getComponentCode_missing:
  "getComponentCode fetchUrl comps tech None variant = Inr (missingComponentMessage comps)"
  "getComponentCode fetchUrl comps tech (Some []) variant = Inr (missingComponentMessage comps)"
  by (simp_all add: getComponentCode_def)

lemma missingComponentMessage_lists_all:
  "missingComponentMessage comps =
     str ''Error: Debes especificar un nombre de componente.'' @ [10, 10]
     @ str ''Componentes disponibles ('' @ showNat (length comps) @ str '' total):''
     @ [10] @ str ''- '' @ join (10 # str ''- '') (Object_keys comps)"
  by (simp add: missingComponentMessage_def Let_def Object_keys_length)

lemma getComponentCode_not_found:
  assumes "cname \<noteq> []" and "findComponentKey comps cname = None"
  shows "getComponentCode fetchUrl comps tech (Some cname) variant =
           Inr (notFoundMessage comps cname)"
  using assms by (simp add: getComponentCode_def)

lemma suggestionsFor_bounded:
  "length (suggestionsFor available cname) \<le> 5"
  "set (suggestionsFor available cname) \<subseteq> set available"
  by (auto simp add: suggestionsFor_def Let_def dest: in_set_takeD)

text \<open>
  How many lines the two payloads have, when no key and no query contains a line feed
  (the parser takes its keys from single lines): a payload has one line more than it has
  line feeds. The missing-argument payload grows with the component map, the not-found
  payload has at most 31 lines.
\<close>

lemma split_lines_length: "length (split_lines s) = Suc (count_list s 10)"
  by (induction s) (auto split: list.splits)

lemma count_list_showNat: "count_list (showNat n) 10 = 0"
proof (induction n rule: showNat.induct)
  case (1 n)
  show ?case
  proof (cases "n < 10")
    case True
    then show ?thesis by (subst showNat.simps) (simp del: showNat.simps)
  next
    case False
    then show ?thesis using 1 by (subst showNat.simps) (simp del: showNat.simps)
  qed
qed

lemma count_list_join:
  assumes "\<forall>k \<in> set ks. 10 \<notin> set k"
  shows "count_list (join (10 # str ''- '') ks) 10 = length ks - 1"
  using assms
proof (induction "10 # str ''- ''" ks rule: join.induct)
  case 1
  then show ?case by simp
next
  case (2 x)
  then show ?case by (simp add: count_list_0_iff)
next
  case (3 x y ys)
  then show ?case by (simp add: count_list_0_iff str_def)
qed

lemma count_list_str: "count_list (str s) 10 = count_list s (CHR ''\<newline>'')"
proof -
  have "of_char a = (10 :: int) \<longleftrightarrow> a = CHR ''\<newline>''" for a
    using of_char_eq_iff [of a "CHR ''\<newline>''", where ?'a = int] by simp
  then show ?thesis
    by (induction s) (simp_all add: str_def)
qed

lemma missingComponentMessage_lines:
  assumes "\<forall>k \<in> fst ` set comps. 10 \<notin> set k"
  shows "length (split_lines (missingComponentMessage comps)) = 4 + (length comps - 1)"
proof -
  have "\<forall>k \<in> set (Object_keys comps). 10 \<notin> set k"
    using assms by (simp add: Object_keys_set)
  then have "count_list (join (10 # str ''- '') (Object_keys comps)) 10 = length comps - 1"
    by (simp add: count_list_join Object_keys_length)
  then show ?thesis
    by (simp add: split_lines_length missingComponentMessage_def Let_def count_list_showNat
        count_list_str Object_keys_length del: showNat.simps)
qed

lemma notFoundMessage_lines:
  assumes "\<forall>k \<in> fst ` set comps. 10 \<notin> set k" and "10 \<notin> set cname"
  shows "length (split_lines (notFoundMessage comps cname)) \<le> 31"
proof -
  have k: "\<forall>k \<in> set (Object_keys comps). 10 \<notin> set k"
    using assms(1) by (simp add: Object_keys_set)
  then have "\<forall>k \<in> set (take 20 (Object_keys comps)). 10 \<notin> set k"
    by (auto dest: in_set_takeD)
  then have a: "count_list (join (10 # str ''- '') (take 20 (Object_keys comps))) 10
                  = min 20 (length comps) - 1"
    by (simp add: count_list_join Object_keys_length)
  have "\<forall>k \<in> set (suggestionsFor (Object_keys comps) cname). 10 \<notin> set k"
    using k suggestionsFor_bounded(2) by blast
  then have b: "count_list (join (10 # str ''- '') (suggestionsFor (Object_keys comps) cname)) 10
                  = length (suggestionsFor (Object_keys comps) cname) - 1"
    by (simp add: count_list_join)
  have c: "length (suggestionsFor (Object_keys comps) cname) \<le> 5"
    by (rule suggestionsFor_bounded)
  have d: "count_list cname 10 = 0"
    using assms(2) by (simp add: count_list_0_iff)
  show ?thesis
    using c
    by (simp add: split_lines_length notFoundMessage_def Let_def count_list_showNat
        count_list_str a b d del: showNat.simps, arith)
qed

text \<open>
  Claim C9, as the code has it. The error payloads of \<open>getComponentCode\<close> list keys of the
  component map as lines \<open>- key\<close>. The missing-argument payload (src/replit.md, lines
  395 to 398; the empty string is a component name that the schema of the tool lets
  through) lists every key of \<open>Object.keys(components)\<close> after their total, however many
  there are: the limit of the earlier revisions was removed on purpose (change log of
  src/unnamed/part_000, 2026-01-22). The not-found payload (lines 402 to 419), given for a
  non-empty name that \<open>findComponentKey\<close> does not resolve, lists at most five suggested
  keys of the map, then the total, the first 20 keys and, when there are more than 20,
  the number of keys left out.
\<close>

theorem getComponentCode_error_payloads:
  "getComponentCode fetchUrl comps tech (Some []) variant =
     Inr (str ''Error: Debes especificar un nombre de componente.'' @ [10, 10]
          @ str ''Componentes disponibles ('' @ showNat (length comps) @ str '' total):''
          @ [10] @ bulletList (Object_keys comps))
   \<and> length (Object_keys comps) = length comps
   \<and> (cname \<noteq> [] \<and> findComponentKey comps cname = None \<longrightarrow>
        getComponentCode fetchUrl comps tech (Some cname) variant =
          Inr (str ''Componente '' @ [39] @ cname @ [39] @ str '' no encontrado.''
               @ (if suggestionsFor (Object_keys comps) cname = [] then []
                  else [10, 10, 191] @ str ''Quiz'' @ [225] @ str ''s quisiste decir?'' @ [10]
                       @ bulletList (suggestionsFor (Object_keys comps) cname))
               @ [10, 10] @ str ''Componentes disponibles ('' @ showNat (length comps)
               @ str '' total):'' @ [10] @ bulletList (take 20 (Object_keys comps))
               @ (if 20 < length comps
                  then [10] @ str ''... y '' @ showNat (length comps - 20) @ str '' m'' @ [225]
                       @ str ''s''
                  else []))
        \<and> length (suggestionsFor (Object_keys comps) cname) \<le> 5
        \<and> set (suggestionsFor (Object_keys comps) cname) \<subseteq> set (Object_keys comps)
        \<and> length (take 20 (Object_keys comps)) = min 20 (length comps))"
proof (intro conjI impI)
  show "getComponentCode fetchUrl comps tech (Some []) variant =
     Inr (str ''Error: Debes especificar un nombre de componente.'' @ [10, 10]
          @ str ''Componentes disponibles ('' @ showNat (length comps) @ str '' total):''
          @ [10] @ bulletList (Object_keys comps))"
    by (simp add: getComponentCode_def missingComponentMessage_def Let_def Object_keys_length
        bulletList_def)
  show "length (Object_keys comps) = length comps"
    by (rule Object_keys_length)
next
  assume a: "cname \<noteq> [] \<and> findComponentKey comps cname = None"
  then have "getComponentCode fetchUrl comps tech (Some cname) variant =
      Inr (notFoundMessage comps cname)"
    by (simp add: getComponentCode_def)
  then show "getComponentCode fetchUrl comps tech (Some cname) variant =
          Inr (str ''Componente '' @ [39] @ cname @ [39] @ str '' no encontrado.''
               @ (if suggestionsFor (Object_keys comps) cname = [] then []
                  else [10, 10, 191] @ str ''Quiz'' @ [225] @ str ''s quisiste decir?'' @ [10]
                       @ bulletList (suggestionsFor (Object_keys comps) cname))
               @ [10, 10] @ str ''Componentes disponibles ('' @ showNat (length comps)
               @ str '' total):'' @ [10] @ bulletList (take 20 (Object_keys comps))
               @ (if 20 < length comps
                  then [10] @ str ''... y '' @ showNat (length comps - 20) @ str '' m'' @ [225]
                       @ str ''s''
                  else []))"
    by (simp add: notFoundMessage_def Let_def Object_keys_length bulletList_def)
  show "length (suggestionsFor (Object_keys comps) cname) \<le> 5"
    by (rule suggestionsFor_bounded)
  show "set (suggestionsFor (Object_keys comps) cname) \<subseteq> set (Object_keys comps)"
    by (rule suggestionsFor_bounded)
  show "length (take 20 (Object_keys comps)) = min 20 (length comps)"
    by (simp add: Object_keys_length)
qed

text \<open>
  Witness for C9: 21 components with the keys \<open>tarjeta 1\<close> to \<open>tarjeta 21\<close> and the query
  \<open>tarx\<close>, which no step of the resolver matches. All 21 keys contain the first three
  code units of the query, five of them are suggested; 20 keys are listed and one is
  left out.
\<close>

theorem getComponentCode_error_payloads_witness:
  "str ''tarx'' \<noteq> [] \<and> findComponentKey sample_catalog_tarjetas (str ''tarx'') = None
   \<and> getComponentCode (\<lambda>u. Inl (TransportError [])) sample_catalog_tarjetas (str ''html'')
         (Some (str ''tarx'')) None =
       Inr (str ''Componente '' @ [39] @ str ''tarx'' @ [39] @ str '' no encontrado.\<newline>\<newline>''
            @ [191] @ str ''Quiz'' @ [225] @ str ''s quisiste decir?\<newline>- tarjeta 1\<newline>- tarjeta 2\<newline>- tarjeta 3\<newline>- tarjeta 4\<newline>- tarjeta 5\<newline>\<newline>Componentes disponibles (21 total):\<newline>- tarjeta 1\<newline>- tarjeta 2\<newline>- tarjeta 3\<newline>- tarjeta 4\<newline>- tarjeta 5\<newline>- tarjeta 6\<newline>- tarjeta 7\<newline>- tarjeta 8\<newline>- tarjeta 9\<newline>- tarjeta 10\<newline>- tarjeta 11\<newline>- tarjeta 12\<newline>- tarjeta 13\<newline>- tarjeta 14\<newline>- tarjeta 15\<newline>- tarjeta 16\<newline>- tarjeta 17\<newline>- tarjeta 18\<newline>- tarjeta 19\<newline>- tarjeta 20\<newline>... y 1 m''
            @ [225] @ str ''s'')
   \<and> suggestionsFor (Object_keys sample_catalog_tarjetas) (str ''tarx'') =
       [str ''tarjeta 1'', str ''tarjeta 2'', str ''tarjeta 3'', str ''tarjeta 4'',
        str ''tarjeta 5'']
   \<and> length (Object_keys sample_catalog_tarjetas) = 21"
  (is "_ \<and> _ \<and> ?lhs = Inr ?payload \<and> ?sug = ?five \<and> _")
proof -
  have h1: "str ''tarx'' \<noteq> []"
    by (simp add: str_def)
  have h2: "findComponentKey sample_catalog_tarjetas (str ''tarx'') = None"
    by code_simp
  have s: "?sug = ?five"
    by code_simp
  have n: "length sample_catalog_tarjetas = 21"
    by (simp add: sample_catalog_tarjetas_def)
  have k: "length (Object_keys sample_catalog_tarjetas) = 21"
    by (simp add: Object_keys_length n)
  have r: "str ''Componente '' @ [39] @ str ''tarx'' @ [39] @ str '' no encontrado.''
           @ (if ?five = [] then []
              else [10, 10, 191] @ str ''Quiz'' @ [225] @ str ''s quisiste decir?'' @ [10]
                   @ bulletList ?five)
           @ [10, 10] @ str ''Componentes disponibles ('' @ showNat 21
           @ str '' total):'' @ [10] @ bulletList (take 20 (Object_keys sample_catalog_tarjetas))
           @ (if (20::nat) < 21
              then [10] @ str ''... y '' @ showNat (21 - 20) @ str '' m'' @ [225]
                   @ str ''s''
              else []) = ?payload"
    by code_simp
  from getComponentCode_error_payloads
         [of "\<lambda>u. Inl (TransportError [])" sample_catalog_tarjetas "str ''html''" None
             "str ''tarx''"]
  have "?lhs = Inr ?payload"
    using h1 h2 unfolding s n r by blast
  then show ?thesis
    using h1 h2 s k by simp
qed

text \<open>
  Counterexample to C9 as stated: with 21 components and the empty string as component
  name, the missing-argument payload lists all 21 keys.
\<close>

theorem getComponentCode_error_payloads_counterexample:
  "length (Object_keys sample_catalog21) = 21
   \<and> getComponentCode (\<lambda>u. Inl (TransportError [])) sample_catalog21 (str ''html'') (Some []) None =
     Inr (str ''Error: Debes especificar un nombre de componente.\<newline>\<newline>Componentes disponibles (21 total):\<newline>- c1\<newline>- c2\<newline>- c3\<newline>- c4\<newline>- c5\<newline>- c6\<newline>- c7\<newline>- c8\<newline>- c9\<newline>- c10\<newline>- c11\<newline>- c12\<newline>- c13\<newline>- c14\<newline>- c15\<newline>- c16\<newline>- c17\<newline>- c18\<newline>- c19\<newline>- c20\<newline>- c21'')"
  by code_simp

end
